theory Spec2Isabelle
  imports Complex_Main "HOL-Library.Multiset" "HOL-Library.Log_Nat"
begin

section \<open>JavaScript values used by the interactive affordance layer\<close>

text \<open>
  Errors of the host platform are values. \<open>ReferenceError\<close> is what reading an undeclared
  identifier (\<open>window\<close> or \<open>document\<close> outside a browser) gives; \<open>TypeError\<close> is a call
  of something that is \<open>undefined\<close>; \<open>NotFoundError\<close> is what \<open>removeChild\<close> raises for
  a node that is not a child.
\<close>

datatype js_error = ReferenceError | TypeError | NotFoundError

text \<open>
  A character is a code point below 256 (Basic Latin and Latin-1 Supplement); strings with
  other code points are outside the model. On these code points
  \<open>String.prototype.toLowerCase\<close> changes the letters \<open>A\<close> to \<open>Z\<close> (65 to 90) and the
  letters from U+00C0 to U+00DE other than the multiplication sign U+00D7, each to the code
  point 32 above it, which is setting bit 5; every other code point is kept.
\<close>

definition lower_char :: "char \<Rightarrow> char" where
  "lower_char c = (case c of Char b0 b1 b2 b3 b4 b5 b6 b7 \<Rightarrow>
     if ((65::nat) \<le> of_char c \<and> of_char c \<le> (90::nat)) \<or>
        ((192::nat) \<le> of_char c \<and> of_char c \<le> (222::nat) \<and> of_char c \<noteq> (215::nat))
     then Char b0 b1 b2 b3 b4 True b6 b7 else c)"

definition toLowerCase :: "string \<Rightarrow> string" where
  "toLowerCase s = map lower_char s"

text \<open>
  \<open>s.split('+')\<close>: the pieces between the separators, empty pieces included; the empty
  string gives one empty piece.
\<close>

fun split_plus :: "string \<Rightarrow> string list" where
  "split_plus [] = [[]]"
| "split_plus (c # cs) =
     (if c = CHR ''+'' then [] # split_plus cs
      else (case split_plus cs of [] \<Rightarrow> [[c]] | t # ts \<Rightarrow> (c # t) # ts))"

text \<open>Truthiness of an optional string: \<open>undefined\<close> and \<open>''\<close> are falsy.\<close>

fun truthy_string :: "string option \<Rightarrow> bool" where
  "truthy_string None = False"
| "truthy_string (Some s) = (s \<noteq> [])"

section \<open>\<open>src/lib/utils.ts\<close>: \<open>cn\<close>\<close>

text \<open>The argument type of \<open>cn\<close> is \<open>string | undefined | false\<close>.\<close>

datatype class_value = Str string | Undefined | JsFalse

text \<open>\<open>Boolean(v)\<close>: only a non-empty string is truthy.\<close>

fun Boolean :: "class_value \<Rightarrow> bool" where
  "Boolean (Str s) = (s \<noteq> [])"
| "Boolean Undefined = False"
| "Boolean JsFalse = False"

text \<open>
  The string an element contributes to \<open>Array.prototype.join\<close>: \<open>undefined\<close> gives the
  empty string, \<open>false\<close> gives \<open>false\<close>.
\<close>

fun toString :: "class_value \<Rightarrow> string" where
  "toString (Str s) = s"
| "toString Undefined = []"
| "toString JsFalse = ''false''"

fun join :: "string \<Rightarrow> class_value list \<Rightarrow> string" where
  "join sep [] = []"
| "join sep [v] = toString v"
| "join sep (v # w # vs) = toString v @ sep @ join sep (w # vs)"

definition cn :: "class_value list \<Rightarrow> string" where
  "cn classes = join '' '' (filter Boolean classes)"

text \<open>
  What the description of \<open>cn\<close> says, written independently of the code: the non-empty
  string arguments, in order, with one space between neighbours.
\<close>

fun truthy_strings :: "class_value list \<Rightarrow> string list" where
  "truthy_strings [] = []"
| "truthy_strings (Str s # vs) = (if s = [] then truthy_strings vs else s # truthy_strings vs)"
| "truthy_strings (_ # vs) = truthy_strings vs"

fun spaced :: "string list \<Rightarrow> string" where
  "spaced [] = []"
| "spaced [s] = s"
| "spaced (s # t # ss) = s @ '' '' @ spaced (t # ss)"

section \<open>\<open>src/lib/utils.ts\<close>: accessibility preferences\<close>

text \<open>
  The environment is \<open>None\<close> where \<open>typeof window === 'undefined'\<close>; the global
  \<open>document\<close> is \<open>window.document\<close>, so it is undeclared there as well. Otherwise the
  environment is a window. Its \<open>matchMedia\<close> is \<open>None\<close> when the window has no such
  function, and otherwise gives \<open>matchMedia(q).matches\<close> for each query.
\<close>

record window =
  matchMedia :: "(string \<Rightarrow> bool) option"

text \<open>\<open>window.matchMedia(q).matches\<close>, unguarded.\<close>

fun window_matchMedia :: "window option \<Rightarrow> string \<Rightarrow> js_error + bool" where
  "window_matchMedia None q = Inl ReferenceError"
| "window_matchMedia (Some w) q =
     (case matchMedia w of None \<Rightarrow> Inl TypeError | Some matches \<Rightarrow> Inr (matches q))"

definition prefersReducedMotion :: "window option \<Rightarrow> js_error + bool" where
  "prefersReducedMotion env =
     (if env = None then Inr False
      else window_matchMedia env ''(prefers-reduced-motion: reduce)'')"

definition prefersHighContrast :: "window option \<Rightarrow> js_error + bool" where
  "prefersHighContrast env =
     (if env = None then Inr False
      else (case window_matchMedia env ''(prefers-contrast: more)'' of
              Inl err \<Rightarrow> Inl err
            | Inr True \<Rightarrow> Inr True
            | Inr False \<Rightarrow> window_matchMedia env ''(prefers-contrast: high)''))"

section \<open>JavaScript numbers\<close>

text \<open>
  A number is a real; each arithmetic operation of the code gives the exact result rounded
  to the nearest IEEE 754 binary64 number, ties to the even significand. Around a number
  \<open>x\<close> in the binade \<open>e\<close>, that is \<open>2^e \<le> |x| < 2^(e+1)\<close>, the binary64 numbers are
  the multiples of \<open>2^(e-52)\<close>, and below \<open>2^-1022\<close> they are the multiples of
  \<open>2^-1074\<close>. Results of magnitude \<open>2^1024\<close> or more, which the code turns into
  \<open>Infinity\<close>, are outside the model, and so is \<open>NaN\<close>.
\<close>

definition binade :: "real \<Rightarrow> int" where
  "binade x =
     (if 1 \<le> \<bar>x\<bar> then bitlen \<lfloor>\<bar>x\<bar>\<rfloor> - 1 else - bitlen (\<lceil>1 / \<bar>x\<bar>\<rceil> - 1))"

definition round_half_even :: "real \<Rightarrow> int" where
  "round_half_even y =
     (let n = \<lfloor>y\<rfloor>; r = y - of_int n
      in if r < 1 / 2 then n else if 1 / 2 < r then n + 1 else if even n then n else n + 1)"

definition quantum :: "real \<Rightarrow> real" where
  "quantum x = 2 powi (max (binade x - 52) (- 1074))"

definition fl :: "real \<Rightarrow> real" where
  "fl x = (if x = 0 then 0 else of_int (round_half_even (x / quantum x)) * quantum x)"

text \<open>
  The largest rounding error in the subnormal range, half the spacing \<open>2^-1074\<close>; and the
  magnitude below which doubling a number does not overflow.
\<close>

definition underflow_error :: real where
  "underflow_error = 2 powi (- 1075)"

definition doubling_limit :: real where
  "doubling_limit = 2 ^ 1023"

text \<open>The operators \<open>-\<close>, \<open>/\<close> and \<open>*\<close> of the code. \<open>Math.max\<close> is exact.\<close>

definition js_minus :: "real \<Rightarrow> real \<Rightarrow> real" where
  "js_minus a b = fl (a - b)"

definition js_divide :: "real \<Rightarrow> real \<Rightarrow> real" where
  "js_divide a b = fl (a / b)"

definition js_times :: "real \<Rightarrow> real \<Rightarrow> real" where
  "js_times a b = fl (a * b)"

section \<open>The document tree around one host control\<close>

record DOMRect =
  rect_left :: real
  rect_top :: real
  rect_width :: real
  rect_height :: real

text \<open>
  An element as the ripple code sees it: its identity, its \<open>class\<close> attribute and the
  inline style the code writes (lengths in px).
\<close>

record element =
  node_id :: nat
  className :: string
  style_width :: real
  style_height :: real
  style_left :: real
  style_top :: real
  style_backgroundColor :: "string option"
  style_borderRadius :: "string option"

text \<open>
  The classes of an element are the pieces of its \<open>class\<close> attribute between ASCII
  whitespace; the selector \<open>.c\<close> matches an element that has the class \<open>c\<close>.
\<close>

definition is_ascii_whitespace :: "char \<Rightarrow> bool" where
  "is_ascii_whitespace c = (c \<in> set [CHR 0x09, CHR 0x0A, CHR 0x0C, CHR 0x0D, CHR '' ''])"

fun split_whitespace :: "string \<Rightarrow> string list" where
  "split_whitespace [] = [[]]"
| "split_whitespace (c # cs) =
     (if is_ascii_whitespace c then [] # split_whitespace cs
      else (case split_whitespace cs of [] \<Rightarrow> [[c]] | t # ts \<Rightarrow> (c # t) # ts))"

definition class_tokens :: "string \<Rightarrow> string list" where
  "class_tokens s = filter (\<lambda>t. t \<noteq> []) (split_whitespace s)"

definition matches_class :: "string \<Rightarrow> element \<Rightarrow> bool" where
  "matches_class c k = (c \<in> set (class_tokens (className k)))"

text \<open>
  The host control (\<open>event.currentTarget\<close>). \<open>ripple_container\<close> is what
  \<open>button.querySelector('.ripple-container')\<close> finds: \<open>None\<close> for \<open>null\<close>, otherwise the
  children of that element, which the ripple code treats as leaves.
\<close>

record host =
  boundingClientRect :: DOMRect
  classList :: "string list"
  computedBorderRadius :: string
  ripple_container :: "element list option"

text \<open>
  The page: the host, the identity the next \<open>document.createElement\<close> gives, the pending
  \<open>setTimeout\<close> callbacks (delay in ms and the node whose \<open>remove()\<close> they call), and how
  often the caller's \<open>props.onClick\<close> has run.
\<close>

record page =
  currentTarget :: host
  next_node :: nat
  timeouts :: "(real \<times> nat) list"
  onClick_calls :: nat

record mouse_event =
  clientX :: real
  clientY :: real

text \<open>
  \<open>document.createElement('span')\<close>: reading \<open>document\<close> raises where there is no
  window; otherwise the page hands out the next identity.
\<close>

fun createElement :: "window option \<Rightarrow> page \<Rightarrow> js_error + page" where
  "createElement None p = Inl ReferenceError"
| "createElement (Some w) p = Inr (p\<lparr>next_node := Suc (next_node p)\<rparr>)"

definition setTimeout :: "nat \<Rightarrow> real \<Rightarrow> page \<Rightarrow> page" where
  "setTimeout n ms p = p\<lparr>timeouts := timeouts p @ [(ms, n)]\<rparr>"

text \<open>Whether the node with identity \<open>n\<close> is in the tree, that is, inside the container.\<close>

definition in_tree :: "nat \<Rightarrow> page \<Rightarrow> bool" where
  "in_tree n p =
     (case ripple_container (currentTarget p) of
        None \<Rightarrow> False
      | Some kids \<Rightarrow> n \<in> node_id ` set kids)"

text \<open>
  \<open>parent.removeChild(node)\<close> raises for a node that is not a child of \<open>parent\<close>.
  \<open>node.remove()\<close> returns at once for a node without a parent and otherwise takes the
  node out of its parent.
\<close>

definition removeChild :: "nat \<Rightarrow> element list \<Rightarrow> js_error + element list" where
  "removeChild n kids =
     (if n \<in> node_id ` set kids then Inr (filter (\<lambda>k. node_id k \<noteq> n) kids)
      else Inl NotFoundError)"

definition remove :: "nat \<Rightarrow> page \<Rightarrow> js_error + page" where
  "remove n p =
     (case ripple_container (currentTarget p) of
        None \<Rightarrow> Inr p
      | Some kids \<Rightarrow>
          if n \<in> node_id ` set kids
          then (case removeChild n kids of
                  Inl err \<Rightarrow> Inl err
                | Inr kids' \<Rightarrow>
                    Inr (p\<lparr>currentTarget := (currentTarget p)\<lparr>ripple_container := Some kids'\<rparr>\<rparr>))
          else Inr p)"

text \<open>
  The timer callbacks \<open>() => ripple.remove()\<close>, run in the order they were scheduled; an
  error in one ends the run. \<open>fire_timeouts\<close> runs every pending callback of the page.
\<close>

fun run_callbacks :: "(real \<times> nat) list \<Rightarrow> page \<Rightarrow> js_error + page" where
  "run_callbacks [] p = Inr p"
| "run_callbacks ((ms, n) # ts) p =
     (case remove n p of Inl err \<Rightarrow> Inl err | Inr p' \<Rightarrow> run_callbacks ts p')"

definition fire_timeouts :: "page \<Rightarrow> js_error + page" where
  "fire_timeouts p = run_callbacks (timeouts p) (p\<lparr>timeouts := []\<rparr>)"

text \<open>
  The ripple nodes currently inside the host's container: what
  \<open>querySelectorAll('.ripple-effect')\<close> finds there.
\<close>

definition ripples :: "page \<Rightarrow> element list" where
  "ripples p =
     (case ripple_container (currentTarget p) of
        None \<Rightarrow> []
      | Some kids \<Rightarrow> filter (matches_class ''ripple-effect'') kids)"

section \<open>\<open>src/lib/utils.ts\<close>: \<open>createRippleEffect\<close>\<close>

definition createRippleEffect :: "window option \<Rightarrow> mouse_event \<Rightarrow> page \<Rightarrow> js_error + page" where
  "createRippleEffect env event p =
     (case prefersReducedMotion env of
        Inl err \<Rightarrow> Inl err
      | Inr reduced \<Rightarrow>
          if reduced then Inr p
          else
            (case createElement env p of
               Inl err \<Rightarrow> Inl err
             | Inr p1 \<Rightarrow>
                 let button = currentTarget p1;
                     ripple_id = next_node p;
                     rect = boundingClientRect button;
                     size = max (rect_width rect) (rect_height rect);
                     x = js_minus (js_minus (clientX event) (rect_left rect)) (js_divide size 2);
                     y = js_minus (js_minus (clientY event) (rect_top rect)) (js_divide size 2);
                     ripple = \<lparr>node_id = ripple_id, className = ''ripple-effect'',
                               style_width = size, style_height = size,
                               style_left = x, style_top = y,
                               style_backgroundColor = None, style_borderRadius = None\<rparr>;
                     p2 = (case ripple_container button of
                             None \<Rightarrow> p1
                           | Some kids \<Rightarrow>
                               p1\<lparr>currentTarget :=
                                    button\<lparr>ripple_container := Some (kids @ [ripple])\<rparr>\<rparr>)
                 in Inr (setTimeout ripple_id 600 p2)))"

section \<open>The other version of \<open>utils.ts\<close>: \<open>createRippleEffect\<close> that clears earlier ripples\<close>

text \<open>\<open>window.getComputedStyle(button).borderRadius\<close>, unguarded.\<close>

fun getComputedStyle_borderRadius :: "window option \<Rightarrow> host \<Rightarrow> js_error + string" where
  "getComputedStyle_borderRadius None b = Inl ReferenceError"
| "getComputedStyle_borderRadius (Some w) b = Inr (computedBorderRadius b)"

text \<open>
  The container is looked up and, when missing, created and appended to the host; then
  every \<open>.ripple-effect\<close> element in it is removed.
\<close>

definition ensure_container :: "window option \<Rightarrow> page \<Rightarrow> js_error + page" where
  "ensure_container env p =
     (case ripple_container (currentTarget p) of
        Some kids \<Rightarrow> Inr p
      | None \<Rightarrow>
          (case createElement env p of
             Inl err \<Rightarrow> Inl err
           | Inr p' \<Rightarrow>
               Inr (p'\<lparr>currentTarget := (currentTarget p')\<lparr>ripple_container := Some []\<rparr>\<rparr>)))"

definition createRippleEffect_clearing ::
  "window option \<Rightarrow> mouse_event \<Rightarrow> page \<Rightarrow> js_error + page" where
  "createRippleEffect_clearing env event p =
     (case prefersReducedMotion env of
        Inl err \<Rightarrow> Inl err
      | Inr reduced \<Rightarrow>
          if reduced then Inr p
          else
            (case ensure_container env p of
               Inl err \<Rightarrow> Inl err
             | Inr p0 \<Rightarrow>
                 (case createElement env p0 of
                    Inl err \<Rightarrow> Inl err
                  | Inr p1 \<Rightarrow>
                      let button = currentTarget p1;
                          rippleContainer =
                            (case ripple_container button of None \<Rightarrow> [] | Some kids \<Rightarrow> kids);
                          cleared =
                            filter (\<lambda>k. \<not> matches_class ''ripple-effect'' k) rippleContainer;
                          ripple_id = next_node p0;
                          rect = boundingClientRect button;
                          size = js_times (max (rect_width rect) (rect_height rect)) 2;
                          x = js_minus (js_minus (clientX event) (rect_left rect)) (js_divide size 2);
                          y = js_minus (js_minus (clientY event) (rect_top rect)) (js_divide size 2)
                      in
                        (case (if ''rounded-full'' \<in> set (classList button) then Inr True
                               else (case getComputedStyle_borderRadius env button of
                                       Inl err \<Rightarrow> Inl err
                                     | Inr r \<Rightarrow> Inr (r = ''50%''))) of
                           Inl err \<Rightarrow> Inl err
                         | Inr isRounded \<Rightarrow>
                             (case (if isRounded then Inr (Some ''50%'')
                                    else (case getComputedStyle_borderRadius env button of
                                            Inl err \<Rightarrow> Inl err
                                          | Inr borderRadius \<Rightarrow>
                                              Inr (if borderRadius \<noteq> [] \<and> borderRadius \<noteq> ''0px''
                                                   then Some borderRadius else None))) of
                                Inl err \<Rightarrow> Inl err
                              | Inr radius \<Rightarrow>
                                  let ripple = \<lparr>node_id = ripple_id, className = ''ripple-effect'',
                                                style_width = size, style_height = size,
                                                style_left = x, style_top = y,
                                                style_backgroundColor = None,
                                                style_borderRadius = radius\<rparr>;
                                      p2 = p1\<lparr>currentTarget :=
                                                button\<lparr>ripple_container := Some (cleared @ [ripple])\<rparr>\<rparr>
                                  in Inr (setTimeout ripple_id 600 p2))))))"

section \<open>\<open>src/components/ui/Button.tsx\<close>: ripple emission\<close>

text \<open>
  The props the ripple and shortcut code reads. \<open>onClick\<close> says whether the caller passed
  a click handler.
\<close>

record button_props =
  disabled :: bool
  isLoading :: bool
  disableAnimation :: bool
  keyboardShortcut :: "string option"
  rippleColor :: "string option"
  rippleDuration :: real
  onClick :: bool

definition handleRippleEffect ::
  "button_props \<Rightarrow> window option \<Rightarrow> mouse_event \<Rightarrow> page \<Rightarrow> js_error + page" where
  "handleRippleEffect props env e p =
     (if disableAnimation props \<or> disabled props \<or> isLoading props then Inr p
      else
        (case createElement env p of
           Inl err \<Rightarrow> Inl err
         | Inr p1 \<Rightarrow>
             let button = currentTarget p1;
                 ripple_id = next_node p;
                 rect = boundingClientRect button;
                 size = max (rect_width rect) (rect_height rect);
                 x = js_minus (js_minus (clientX e) (rect_left rect)) (js_divide size 2);
                 y = js_minus (js_minus (clientY e) (rect_top rect)) (js_divide size 2);
                 ripple = \<lparr>node_id = ripple_id, className = ''ripple-effect'',
                           style_width = size, style_height = size,
                           style_left = x, style_top = y,
                           style_backgroundColor =
                             (if truthy_string (rippleColor props) then rippleColor props else None),
                           style_borderRadius = None\<rparr>;
                 p2 = (case ripple_container button of
                         None \<Rightarrow> p1
                       | Some kids \<Rightarrow>
                           p1\<lparr>currentTarget :=
                                button\<lparr>ripple_container := Some (kids @ [ripple])\<rparr>\<rparr>)
             in Inr (setTimeout ripple_id (rippleDuration props) p2)))"

text \<open>
  The arrow function written as the \<open>onClick\<close> attribute of the button (lines 358 to 371):
  the ripple first, then the caller's handler.
\<close>

definition Button_onClick_attribute ::
  "button_props \<Rightarrow> window option \<Rightarrow> mouse_event \<Rightarrow> page \<Rightarrow> js_error + page" where
  "Button_onClick_attribute props env e p =
     (case (if \<not> disabled props \<and> \<not> isLoading props \<and> \<not> disableAnimation props
            then (if truthy_string (rippleColor props) \<or> rippleDuration props \<noteq> 600
                  then handleRippleEffect props env e p
                  else createRippleEffect env e p)
            else Inr p) of
        Inl err \<Rightarrow> Inl err
      | Inr p' \<Rightarrow>
          Inr (if \<not> disabled props \<and> \<not> isLoading props \<and> onClick props
               then p'\<lparr>onClick_calls := Suc (onClick_calls p')\<rparr> else p'))"

text \<open>
  The click handler of the rendered button. The element is given the attribute above and
  then \<open>{...props}\<close> (line 391); \<open>props\<close> holds every prop the component does not
  destructure, \<open>onClick\<close> among them, so a handler the caller passed takes the place of the
  arrow function and runs alone.
\<close>

definition Button_onClick ::
  "button_props \<Rightarrow> window option \<Rightarrow> mouse_event \<Rightarrow> page \<Rightarrow> js_error + page" where
  "Button_onClick props env e p =
     (if onClick props then Inr (p\<lparr>onClick_calls := Suc (onClick_calls p)\<rparr>)
      else Button_onClick_attribute props env e p)"

text \<open>
  The same two in \<open>Fab.tsx\<close> (lines 134 to 141, and the spread at line 148); the Fab has no
  loading state and one ripple path.
\<close>

definition Fab_onClick_attribute ::
  "button_props \<Rightarrow> window option \<Rightarrow> mouse_event \<Rightarrow> page \<Rightarrow> js_error + page" where
  "Fab_onClick_attribute props env e p =
     (case (if \<not> disabled props \<and> \<not> disableAnimation props
            then createRippleEffect env e p
            else Inr p) of
        Inl err \<Rightarrow> Inl err
      | Inr p' \<Rightarrow>
          Inr (if \<not> disabled props \<and> onClick props
               then p'\<lparr>onClick_calls := Suc (onClick_calls p')\<rparr> else p'))"

definition Fab_onClick ::
  "button_props \<Rightarrow> window option \<Rightarrow> mouse_event \<Rightarrow> page \<Rightarrow> js_error + page" where
  "Fab_onClick props env e p =
     (if onClick props then Inr (p\<lparr>onClick_calls := Suc (onClick_calls p)\<rparr>)
      else Fab_onClick_attribute props env e p)"

section \<open>\<open>Button.tsx\<close> and \<open>Fab.tsx\<close>: the global shortcut handler\<close>

text \<open>
  A key event. \<open>target_tagName\<close> is \<open>(e.target as HTMLElement)?.tagName\<close>, \<open>None\<close> when
  the chain gives \<open>undefined\<close>.
\<close>

record key_event =
  key :: string
  ctrlKey :: bool
  altKey :: bool
  shiftKey :: bool
  metaKey :: bool
  target_tagName :: "string option"

text \<open>What a handler did to the event and the control.\<close>

record effects =
  preventDefault_calls :: nat
  click_calls :: nat

text \<open>\<open>arr.includes(x)\<close> for an \<open>x\<close> that may be \<open>undefined\<close>.\<close>

fun array_includes :: "string list \<Rightarrow> string option \<Rightarrow> bool" where
  "array_includes arr None = False"
| "array_includes arr (Some x) = (x \<in> set arr)"

text \<open>\<open>arr[0]\<close>: \<open>undefined\<close> on the empty array.\<close>

fun index0 :: "'a list \<Rightarrow> 'a option" where
  "index0 [] = None"
| "index0 (x # _) = Some x"

text \<open>\<open>buttonRef.current?.click()\<close>: nothing when the ref is \<open>null\<close>.\<close>

definition click :: "bool \<Rightarrow> effects \<Rightarrow> effects" where
  "click attached eff = (if attached then eff\<lparr>click_calls := Suc (click_calls eff)\<rparr> else eff)"

definition preventDefault :: "effects \<Rightarrow> effects" where
  "preventDefault eff = eff\<lparr>preventDefault_calls := Suc (preventDefault_calls eff)\<rparr>"

text \<open>
  \<open>handleGlobalKeyDown\<close> of \<open>Button.tsx\<close>, closed over \<open>keys\<close>, the props and whether
  \<open>buttonRef.current\<close> is set.
\<close>

definition Button_handleGlobalKeyDown ::
  "string list \<Rightarrow> button_props \<Rightarrow> bool \<Rightarrow> key_event \<Rightarrow> effects \<Rightarrow> effects" where
  "Button_handleGlobalKeyDown keys props attached e eff =
     (if array_includes [''input'', ''textarea'', ''select''] (map_option toLowerCase (target_tagName e))
      then eff
      else
        let ctrlKey' = (''ctrl'' \<in> set keys \<or> ''control'' \<in> set keys);
            altKey' = (''alt'' \<in> set keys);
            shiftKey' = (''shift'' \<in> set keys);
            metaKey' = (''meta'' \<in> set keys \<or> ''cmd'' \<in> set keys \<or> ''command'' \<in> set keys);
            mainKey = index0 (filter (\<lambda>k. k \<notin> set [''ctrl'', ''control'', ''alt'', ''shift'',
                                                    ''meta'', ''cmd'', ''command'']) keys)
        in if Some (toLowerCase (key e)) = mainKey \<and>
              ctrlKey e = ctrlKey' \<and>
              altKey e = altKey' \<and>
              shiftKey e = shiftKey' \<and>
              metaKey e = metaKey' \<and>
              \<not> disabled props \<and>
              \<not> isLoading props
           then click attached (preventDefault eff)
           else eff)"

text \<open>The same handler in \<open>Fab.tsx\<close>; the Fab has no loading state.\<close>

definition Fab_handleGlobalKeyDown ::
  "string list \<Rightarrow> button_props \<Rightarrow> bool \<Rightarrow> key_event \<Rightarrow> effects \<Rightarrow> effects" where
  "Fab_handleGlobalKeyDown keys props attached e eff =
     (if array_includes [''input'', ''textarea'', ''select''] (map_option toLowerCase (target_tagName e))
      then eff
      else
        let ctrlKey' = (''ctrl'' \<in> set keys \<or> ''control'' \<in> set keys);
            altKey' = (''alt'' \<in> set keys);
            shiftKey' = (''shift'' \<in> set keys);
            metaKey' = (''meta'' \<in> set keys \<or> ''cmd'' \<in> set keys \<or> ''command'' \<in> set keys);
            mainKey = index0 (filter (\<lambda>k. k \<notin> set [''ctrl'', ''control'', ''alt'', ''shift'',
                                                    ''meta'', ''cmd'', ''command'']) keys)
        in if Some (toLowerCase (key e)) = mainKey \<and>
              ctrlKey e = ctrlKey' \<and>
              altKey e = altKey' \<and>
              shiftKey e = shiftKey' \<and>
              metaKey e = metaKey' \<and>
              \<not> disabled props
           then click attached (preventDefault eff)
           else eff)"

text \<open>
  The keydown listener a mounted control has on the document: none without a truthy
  \<open>keyboardShortcut\<close>, otherwise the handler over
  \<open>keyboardShortcut.toLowerCase().split('+')\<close>.
\<close>

definition Button_keydown ::
  "button_props \<Rightarrow> bool \<Rightarrow> key_event \<Rightarrow> effects \<Rightarrow> effects" where
  "Button_keydown props attached e eff =
     (case keyboardShortcut props of
        None \<Rightarrow> eff
      | Some s \<Rightarrow>
          if s = [] then eff
          else Button_handleGlobalKeyDown (split_plus (toLowerCase s)) props attached e eff)"

definition Fab_keydown ::
  "button_props \<Rightarrow> bool \<Rightarrow> key_event \<Rightarrow> effects \<Rightarrow> effects" where
  "Fab_keydown props attached e eff =
     (case keyboardShortcut props of
        None \<Rightarrow> eff
      | Some s \<Rightarrow>
          if s = [] then eff
          else Fab_handleGlobalKeyDown (split_plus (toLowerCase s)) props attached e eff)"

text \<open>
  The five locals the handler computes from \<open>keys\<close>, as one value: the four required
  modifier flags and \<open>mainKey\<close>, the first token that is not a modifier name.
\<close>

record combination =
  need_ctrl :: bool
  need_alt :: bool
  need_shift :: bool
  need_meta :: bool
  literal_key :: "string option"

definition is_literal :: "string \<Rightarrow> bool" where
  "is_literal k = (k \<notin> set [''ctrl'', ''control'', ''alt'', ''shift'', ''meta'', ''cmd'', ''command''])"

definition parse_keys :: "string list \<Rightarrow> combination" where
  "parse_keys keys =
     \<lparr>need_ctrl = (''ctrl'' \<in> set keys \<or> ''control'' \<in> set keys),
      need_alt = (''alt'' \<in> set keys),
      need_shift = (''shift'' \<in> set keys),
      need_meta = (''meta'' \<in> set keys \<or> ''cmd'' \<in> set keys \<or> ''command'' \<in> set keys),
      literal_key = index0 (filter is_literal keys)\<rparr>"

text \<open>The tokens of a combination string: \<open>combination.toLowerCase().split('+')\<close>.\<close>

definition tokens :: "string \<Rightarrow> string list" where
  "tokens s = split_plus (toLowerCase s)"

definition parse_combination :: "string \<Rightarrow> combination" where
  "parse_combination s = parse_keys (tokens s)"

text \<open>
  The matching policy in the specification's words: the event's literal key, lowercased,
  is the combination's literal key, and each of the four modifier flags of the event
  equals the combination's.
\<close>

definition exact_match :: "combination \<Rightarrow> key_event \<Rightarrow> bool" where
  "exact_match c e =
     (Some (toLowerCase (key e)) = literal_key c \<and>
      ctrlKey e = need_ctrl c \<and>
      altKey e = need_alt c \<and>
      shiftKey e = need_shift c \<and>
      metaKey e = need_meta c)"

text \<open>The focus guard: the event's target is a text-entry element.\<close>

definition text_entry_target :: "key_event \<Rightarrow> bool" where
  "text_entry_target e =
     array_includes [''input'', ''textarea'', ''select''] (map_option toLowerCase (target_tagName e))"

section \<open>Listener registration of a mounted control\<close>

text \<open>
  The listeners on the document's \<open>keydown\<close> stream and on the media query's
  \<open>change\<close> stream, each a closure known by its identity, and the identity the next
  closure gets.
\<close>

record listeners =
  keydown_listeners :: "nat list"
  change_listeners :: "nat list"
  next_closure :: nat

text \<open>
  \<open>addEventListener\<close> does not add a callback that is registered already;
  \<open>removeEventListener\<close> takes the callback out when it is there.
\<close>

definition addEventListener :: "nat \<Rightarrow> nat list \<Rightarrow> nat list" where
  "addEventListener h ls = (if h \<in> set ls then ls else ls @ [h])"

definition removeEventListener :: "nat \<Rightarrow> nat list \<Rightarrow> nat list" where
  "removeEventListener h ls = remove1 h ls"

text \<open>
  An effect returns the new state and its cleanup (\<open>None\<close> when the effect body returns
  nothing).
\<close>

type_synonym cleanup = "(listeners \<Rightarrow> listeners) option"

text \<open>The high-contrast effect of \<open>Button.tsx\<close> (and of \<open>Fab.tsx\<close>).\<close>

definition highContrast_effect :: "listeners \<Rightarrow> listeners \<times> cleanup" where
  "highContrast_effect d =
     (let handleChange = next_closure d;
          d1 = d\<lparr>next_closure := Suc handleChange\<rparr>
      in (d1\<lparr>change_listeners := addEventListener handleChange (change_listeners d1)\<rparr>,
          Some (\<lambda>d'. d'\<lparr>change_listeners := removeEventListener handleChange (change_listeners d')\<rparr>)))"

text \<open>The shortcut effect: it returns early, with no cleanup, without a truthy shortcut.\<close>

definition shortcut_effect :: "button_props \<Rightarrow> listeners \<Rightarrow> listeners \<times> cleanup" where
  "shortcut_effect props d =
     (if \<not> truthy_string (keyboardShortcut props) then (d, None)
      else
        let handleGlobalKeyDown = next_closure d;
            d1 = d\<lparr>next_closure := Suc handleGlobalKeyDown\<rparr>
        in (d1\<lparr>keydown_listeners := addEventListener handleGlobalKeyDown (keydown_listeners d1)\<rparr>,
            Some (\<lambda>d'. d'\<lparr>keydown_listeners :=
                           removeEventListener handleGlobalKeyDown (keydown_listeners d')\<rparr>)))"

text \<open>Mounting runs both effects in order; unmounting runs the cleanups they returned.\<close>

definition mount :: "button_props \<Rightarrow> listeners \<Rightarrow> listeners \<times> cleanup list" where
  "mount props d =
     (let r1 = highContrast_effect d;
          r2 = shortcut_effect props (fst r1)
      in (fst r2, [snd r1, snd r2]))"

fun run_cleanup :: "cleanup \<Rightarrow> listeners \<Rightarrow> listeners" where
  "run_cleanup None d = d"
| "run_cleanup (Some f) d = f d"

definition unmount :: "cleanup list \<Rightarrow> listeners \<Rightarrow> listeners" where
  "unmount cs d = fold run_cleanup cs d"

text \<open>Every registered closure is older than the next identity.\<close>

definition closures_known :: "listeners \<Rightarrow> bool" where
  "closures_known d =
     (list_all (\<lambda>h. h < next_closure d) (keydown_listeners d) \<and>
      list_all (\<lambda>h. h < next_closure d) (change_listeners d))"

section \<open>Properties of \<open>cn\<close> and of the preference queries\<close>

lemma filter_Boolean_truthy_strings: "filter Boolean vs = map Str (truthy_strings vs)"
  by (induction vs rule: truthy_strings.induct) simp_all

lemma join_Str_spaced: "join '' '' (map Str ss) = spaced ss"
  by (induction ss rule: spaced.induct) simp_all

text \<open>
  C9: for every argument list, \<open>cn\<close> returns exactly the truthy string arguments, in their
  original order, joined by a single space; \<open>undefined\<close>, \<open>false\<close> and the empty string
  contribute nothing wherever they stand, and a call with no truthy argument returns the
  empty string.
\<close>

theorem cn_joins_truthy_strings:
  "cn classes = spaced (truthy_strings classes)
   \<and> cn (xs @ [Undefined] @ ys) = cn (xs @ ys)
   \<and> cn (xs @ [JsFalse] @ ys) = cn (xs @ ys)
   \<and> cn (xs @ [Str ''''] @ ys) = cn (xs @ ys)
   \<and> (filter Boolean classes = [] \<longrightarrow> cn classes = [])"
  by (simp add: cn_def filter_Boolean_truthy_strings join_Str_spaced)

theorem cn_joins_truthy_strings_witness:
  "cn [Str ''btn'', Undefined, JsFalse, Str '''', Str ''w-full''] = ''btn w-full''
   \<and> filter Boolean [Undefined, JsFalse, Str ''''] = []
   \<and> cn [Undefined, JsFalse, Str ''''] = []"
  using cn_joins_truthy_strings [of "[Undefined, JsFalse, Str '''']" "[]" "[]"]
        cn_joins_truthy_strings [of "[Str ''btn'', Undefined, JsFalse, Str '''', Str ''w-full'']" "[]" "[]"]
  by simp

text \<open>
  C10: where \<open>window\<close> is undefined, \<open>prefersReducedMotion\<close> and \<open>prefersHighContrast\<close>
  both return \<open>false\<close>; neither raises.
\<close>

theorem preferences_false_without_window:
  "prefersReducedMotion None = Inr False \<and> prefersHighContrast None = Inr False"
  by (simp add: prefersReducedMotion_def prefersHighContrast_def)

section \<open>Properties of the global shortcut handler\<close>

lemma Button_handler_unfold:
  "Button_handleGlobalKeyDown keys props a e eff =
     (if text_entry_target e then eff
      else if exact_match (parse_keys keys) e \<and> \<not> disabled props \<and> \<not> isLoading props
           then click a (preventDefault eff) else eff)"
  by (simp add: Button_handleGlobalKeyDown_def text_entry_target_def exact_match_def
        parse_keys_def is_literal_def [abs_def] Let_def)

lemma Fab_handler_unfold:
  "Fab_handleGlobalKeyDown keys props a e eff =
     (if text_entry_target e then eff
      else if exact_match (parse_keys keys) e \<and> \<not> disabled props
           then click a (preventDefault eff) else eff)"
  by (simp add: Fab_handleGlobalKeyDown_def text_entry_target_def exact_match_def
        parse_keys_def is_literal_def [abs_def] Let_def)

lemma tokens_ctrl_s: "tokens ''ctrl+s'' = [''ctrl'', ''s'']"
  by (simp add: tokens_def toLowerCase_def lower_char_def)

lemma parse_ctrl_s: "parse_combination ''ctrl+s'' =
   \<lparr>need_ctrl = True, need_alt = False, need_shift = False, need_meta = False, literal_key = Some ''s''\<rparr>"
  by (simp add: parse_combination_def tokens_ctrl_s parse_keys_def is_literal_def)

text \<open>
  C2: for a control registered with the combination \<open>C\<close>, when the control is eligible and
  the event's target is not a text-entry element, a key event triggers the control (one
  \<open>preventDefault\<close>, one \<open>click\<close>) exactly when its lowercased key is the literal key
  parsed from \<open>C\<close> and its four modifier flags equal the parsed ones; otherwise nothing
  happens. This holds for the handler of \<open>Button.tsx\<close> and for that of \<open>Fab.tsx\<close>.
\<close>

theorem shortcut_fires_iff_exact_match:
  assumes "keyboardShortcut props = Some C" and "C \<noteq> []"
    and "\<not> text_entry_target e" and "\<not> disabled props" and "\<not> isLoading props"
  shows "Button_keydown props True e eff =
           (if exact_match (parse_combination C) e
            then eff\<lparr>preventDefault_calls := Suc (preventDefault_calls eff),
                     click_calls := Suc (click_calls eff)\<rparr>
            else eff)
       \<and> Fab_keydown props True e eff =
           (if exact_match (parse_combination C) e
            then eff\<lparr>preventDefault_calls := Suc (preventDefault_calls eff),
                     click_calls := Suc (click_calls eff)\<rparr>
            else eff)"
  using assms
  by (simp add: Button_keydown_def Fab_keydown_def Button_handler_unfold Fab_handler_unfold
        parse_combination_def tokens_def click_def preventDefault_def)

theorem shortcut_fires_iff_exact_match_witness:
  "Button_keydown
     \<lparr>disabled = False, isLoading = False, disableAnimation = False,
      keyboardShortcut = Some ''ctrl+s'', rippleColor = None, rippleDuration = 600, onClick = True\<rparr>
     True
     \<lparr>key = ''s'', ctrlKey = True, altKey = False, shiftKey = False, metaKey = False,
      target_tagName = Some ''BODY''\<rparr>
     \<lparr>preventDefault_calls = 0, click_calls = 0\<rparr>
   = \<lparr>preventDefault_calls = 1, click_calls = 1\<rparr>
   \<and> Button_keydown
     \<lparr>disabled = False, isLoading = False, disableAnimation = False,
      keyboardShortcut = Some ''ctrl+s'', rippleColor = None, rippleDuration = 600, onClick = True\<rparr>
     True
     \<lparr>key = ''s'', ctrlKey = True, altKey = False, shiftKey = True, metaKey = False,
      target_tagName = Some ''BODY''\<rparr>
     \<lparr>preventDefault_calls = 0, click_calls = 0\<rparr>
   = \<lparr>preventDefault_calls = 0, click_calls = 0\<rparr>
   \<and> Fab_keydown
     \<lparr>disabled = False, isLoading = False, disableAnimation = False,
      keyboardShortcut = Some ''ctrl+s'', rippleColor = None, rippleDuration = 600, onClick = True\<rparr>
     True
     \<lparr>key = ''s'', ctrlKey = False, altKey = False, shiftKey = False, metaKey = False,
      target_tagName = Some ''BODY''\<rparr>
     \<lparr>preventDefault_calls = 0, click_calls = 0\<rparr>
   = \<lparr>preventDefault_calls = 0, click_calls = 0\<rparr>"
proof -
  let ?props = "\<lparr>disabled = False, isLoading = False, disableAnimation = False,
      keyboardShortcut = Some ''ctrl+s'', rippleColor = None, rippleDuration = 600, onClick = True\<rparr>"
  let ?eff = "\<lparr>preventDefault_calls = 0, click_calls = 0\<rparr>"
  let ?e1 = "\<lparr>key = ''s'', ctrlKey = True, altKey = False, shiftKey = False, metaKey = False,
      target_tagName = Some ''BODY''\<rparr>"
  let ?e2 = "\<lparr>key = ''s'', ctrlKey = True, altKey = False, shiftKey = True, metaKey = False,
      target_tagName = Some ''BODY''\<rparr>"
  let ?e3 = "\<lparr>key = ''s'', ctrlKey = False, altKey = False, shiftKey = False, metaKey = False,
      target_tagName = Some ''BODY''\<rparr>"
  have g: "\<not> text_entry_target ?e1" "\<not> text_entry_target ?e2" "\<not> text_entry_target ?e3"
    by (simp_all add: text_entry_target_def toLowerCase_def lower_char_def)
  have m: "exact_match (parse_combination ''ctrl+s'') ?e1"
     "\<not> exact_match (parse_combination ''ctrl+s'') ?e2"
     "\<not> exact_match (parse_combination ''ctrl+s'') ?e3"
    by (simp_all add: parse_ctrl_s exact_match_def toLowerCase_def lower_char_def)
  show ?thesis
    using shortcut_fires_iff_exact_match [of ?props "''ctrl+s''" ?e1 ?eff]
          shortcut_fires_iff_exact_match [of ?props "''ctrl+s''" ?e2 ?eff]
          shortcut_fires_iff_exact_match [of ?props "''ctrl+s''" ?e3 ?eff]
          g m
    by simp
qed

text \<open>
  C3: a key event whose target has the tag name \<open>input\<close>, \<open>textarea\<close> or \<open>select\<close> (in
  any letter case) changes nothing: no \<open>preventDefault\<close>, no \<open>click\<close>, whatever the
  props, the combination and the event's keys are.
\<close>

theorem shortcut_silent_in_text_entry:
  assumes "target_tagName e = Some tag"
    and "toLowerCase tag \<in> {''input'', ''textarea'', ''select''}"
  shows "Button_keydown props attached e eff = eff \<and> Fab_keydown props attached e eff = eff"
proof -
  have "text_entry_target e"
    using assms by (auto simp add: text_entry_target_def)
  then show ?thesis
    by (simp add: Button_keydown_def Fab_keydown_def Button_handler_unfold Fab_handler_unfold
          split: option.split)
qed

theorem shortcut_silent_in_text_entry_witness:
  "toLowerCase ''INPUT'' \<in> {''input'', ''textarea'', ''select''}
   \<and> exact_match (parse_combination ''ctrl+s'')
       \<lparr>key = ''s'', ctrlKey = True, altKey = False, shiftKey = False, metaKey = False,
        target_tagName = Some ''INPUT''\<rparr>
   \<and> Button_keydown
       \<lparr>disabled = False, isLoading = False, disableAnimation = False,
        keyboardShortcut = Some ''ctrl+s'', rippleColor = None, rippleDuration = 600, onClick = True\<rparr>
       True
       \<lparr>key = ''s'', ctrlKey = True, altKey = False, shiftKey = False, metaKey = False,
        target_tagName = Some ''INPUT''\<rparr>
       \<lparr>preventDefault_calls = 0, click_calls = 0\<rparr>
     = \<lparr>preventDefault_calls = 0, click_calls = 0\<rparr>
   \<and> Fab_keydown
       \<lparr>disabled = False, isLoading = False, disableAnimation = False,
        keyboardShortcut = Some ''ctrl+s'', rippleColor = None, rippleDuration = 600, onClick = True\<rparr>
       True
       \<lparr>key = ''s'', ctrlKey = True, altKey = False, shiftKey = False, metaKey = False,
        target_tagName = Some ''INPUT''\<rparr>
       \<lparr>preventDefault_calls = 0, click_calls = 0\<rparr>
     = \<lparr>preventDefault_calls = 0, click_calls = 0\<rparr>"
proof -
  let ?e = "\<lparr>key = ''s'', ctrlKey = True, altKey = False, shiftKey = False, metaKey = False,
        target_tagName = Some ''INPUT''\<rparr>"
  have t: "toLowerCase ''INPUT'' \<in> {''input'', ''textarea'', ''select''}"
    by (simp add: toLowerCase_def lower_char_def)
  have m: "exact_match (parse_combination ''ctrl+s'') ?e"
    by (simp add: parse_ctrl_s exact_match_def toLowerCase_def lower_char_def)
  show ?thesis
    using shortcut_silent_in_text_entry [of ?e "''INPUT''", OF _ t] t m
    by simp
qed

text \<open>
  C5: a Button with \<open>keyboardShortcut = 'ctrl+k'\<close> that is neither disabled nor loading
  answers a ctrl+k keydown on the document body with one \<open>preventDefault\<close> and one
  \<open>click\<close>; the same Button with \<open>disabled\<close> or with \<open>isLoading\<close> answers the same
  keydown with neither.
\<close>

theorem ctrl_k_scenario:
  "Button_keydown
     \<lparr>disabled = False, isLoading = False, disableAnimation = False,
      keyboardShortcut = Some ''ctrl+k'', rippleColor = None, rippleDuration = 600, onClick = True\<rparr>
     True
     \<lparr>key = ''k'', ctrlKey = True, altKey = False, shiftKey = False, metaKey = False,
      target_tagName = Some ''BODY''\<rparr>
     \<lparr>preventDefault_calls = 0, click_calls = 0\<rparr>
   = \<lparr>preventDefault_calls = 1, click_calls = 1\<rparr>
   \<and> Button_keydown
     \<lparr>disabled = True, isLoading = False, disableAnimation = False,
      keyboardShortcut = Some ''ctrl+k'', rippleColor = None, rippleDuration = 600, onClick = True\<rparr>
     True
     \<lparr>key = ''k'', ctrlKey = True, altKey = False, shiftKey = False, metaKey = False,
      target_tagName = Some ''BODY''\<rparr>
     \<lparr>preventDefault_calls = 0, click_calls = 0\<rparr>
   = \<lparr>preventDefault_calls = 0, click_calls = 0\<rparr>
   \<and> Button_keydown
     \<lparr>disabled = False, isLoading = True, disableAnimation = False,
      keyboardShortcut = Some ''ctrl+k'', rippleColor = None, rippleDuration = 600, onClick = True\<rparr>
     True
     \<lparr>key = ''k'', ctrlKey = True, altKey = False, shiftKey = False, metaKey = False,
      target_tagName = Some ''BODY''\<rparr>
     \<lparr>preventDefault_calls = 0, click_calls = 0\<rparr>
   = \<lparr>preventDefault_calls = 0, click_calls = 0\<rparr>"
  by (simp add: Button_keydown_def Button_handleGlobalKeyDown_def toLowerCase_def lower_char_def
        click_def preventDefault_def Let_def)

section \<open>Parsing a combination string\<close>

lemma parse_keys_cong:
  assumes "set ks = set ks'" and "filter is_literal ks = filter is_literal ks'"
  shows "parse_keys ks = parse_keys ks'"
  using assms by (simp add: parse_keys_def)

lemma tokens_mixed: "tokens ''Shift+CTRL+S'' = [''shift'', ''ctrl'', ''s'']"
  by (simp add: tokens_def toLowerCase_def lower_char_def)

lemma tokens_plain: "tokens ''ctrl+shift+s'' = [''ctrl'', ''shift'', ''s'']"
  by (simp add: tokens_def toLowerCase_def lower_char_def)

text \<open>
  C6: parsing is case-insensitive and order-insensitive for modifiers. Two combination
  strings that are equal up to letter case parse to the same combination; so do two
  strings whose lowercased tokens are a permutation of each other that leaves the
  non-modifier tokens in their order. The tokens \<open>ctrl\<close>/\<open>control\<close>, \<open>alt\<close>, \<open>shift\<close>
  and \<open>meta\<close>/\<open>cmd\<close>/\<open>command\<close> set the four modifier flags, and when one token
  remains it is the literal key.
\<close>

theorem parse_case_and_order_insensitive:
  "(toLowerCase s = toLowerCase s' \<longrightarrow> parse_combination s = parse_combination s')
   \<and> (mset (tokens s) = mset (tokens s') \<and>
        filter is_literal (tokens s) = filter is_literal (tokens s')
        \<longrightarrow> parse_combination s = parse_combination s')
   \<and> need_ctrl (parse_combination s) = (''ctrl'' \<in> set (tokens s) \<or> ''control'' \<in> set (tokens s))
   \<and> need_alt (parse_combination s) = (''alt'' \<in> set (tokens s))
   \<and> need_shift (parse_combination s) = (''shift'' \<in> set (tokens s))
   \<and> need_meta (parse_combination s) =
        (''meta'' \<in> set (tokens s) \<or> ''cmd'' \<in> set (tokens s) \<or> ''command'' \<in> set (tokens s))
   \<and> (filter is_literal (tokens s) = [k] \<longrightarrow> literal_key (parse_combination s) = Some k)"
proof -
  have case_ins: "toLowerCase s = toLowerCase s' \<longrightarrow> parse_combination s = parse_combination s'"
    by (simp add: parse_combination_def tokens_def)
  have order_ins: "mset (tokens s) = mset (tokens s') \<and>
        filter is_literal (tokens s) = filter is_literal (tokens s')
        \<longrightarrow> parse_combination s = parse_combination s'"
  proof
    assume h: "mset (tokens s) = mset (tokens s') \<and>
        filter is_literal (tokens s) = filter is_literal (tokens s')"
    then have "set (tokens s) = set (tokens s')"
      by (metis set_mset_mset)
    with h show "parse_combination s = parse_combination s'"
      unfolding parse_combination_def by (intro parse_keys_cong) simp_all
  qed
  have flags: "need_ctrl (parse_combination s) = (''ctrl'' \<in> set (tokens s) \<or> ''control'' \<in> set (tokens s))"
    "need_alt (parse_combination s) = (''alt'' \<in> set (tokens s))"
    "need_shift (parse_combination s) = (''shift'' \<in> set (tokens s))"
    "need_meta (parse_combination s) =
        (''meta'' \<in> set (tokens s) \<or> ''cmd'' \<in> set (tokens s) \<or> ''command'' \<in> set (tokens s))"
    by (simp_all add: parse_combination_def parse_keys_def)
  have lit: "filter is_literal (tokens s) = [k] \<longrightarrow> literal_key (parse_combination s) = Some k"
    by (simp add: parse_combination_def parse_keys_def)
  from case_ins order_ins flags lit show ?thesis by blast
qed

theorem parse_case_and_order_insensitive_witness:
  "mset (tokens ''Shift+CTRL+S'') = mset (tokens ''ctrl+shift+s'')
   \<and> filter is_literal (tokens ''Shift+CTRL+S'') = [''s'']
   \<and> filter is_literal (tokens ''ctrl+shift+s'') = [''s'']
   \<and> toLowerCase ''CTRL+Shift+s'' = toLowerCase ''ctrl+shift+s''
   \<and> parse_combination ''Shift+CTRL+S'' = parse_combination ''ctrl+shift+s''
   \<and> parse_combination ''CTRL+Shift+s'' = parse_combination ''ctrl+shift+s''
   \<and> literal_key (parse_combination ''Shift+CTRL+S'') = Some ''s''
   \<and> need_ctrl (parse_combination ''Shift+CTRL+S'')
   \<and> need_shift (parse_combination ''Shift+CTRL+S'')
   \<and> \<not> need_alt (parse_combination ''Shift+CTRL+S'')
   \<and> \<not> need_meta (parse_combination ''Shift+CTRL+S'')"
proof -
  have p: "mset (tokens ''Shift+CTRL+S'') = mset (tokens ''ctrl+shift+s'')"
    by (simp add: tokens_mixed tokens_plain)
  have l: "filter is_literal (tokens ''Shift+CTRL+S'') = [''s'']"
    "filter is_literal (tokens ''ctrl+shift+s'') = [''s'']"
    by (simp_all add: tokens_mixed tokens_plain is_literal_def)
  have c: "toLowerCase ''CTRL+Shift+s'' = toLowerCase ''ctrl+shift+s''"
    by (simp add: toLowerCase_def lower_char_def)
  have r0: "parse_combination ''Shift+CTRL+S'' = parse_combination ''ctrl+shift+s''"
    using parse_case_and_order_insensitive [of "''Shift+CTRL+S''" "''ctrl+shift+s''" "''s''"] p l
    by simp
  have r3: "literal_key (parse_combination ''Shift+CTRL+S'') = Some ''s''"
    using parse_case_and_order_insensitive [of "''Shift+CTRL+S''" "''ctrl+shift+s''" "''s''"] l(1)
    by blast
  have r1: "need_ctrl (parse_combination ''Shift+CTRL+S'')"
    "need_shift (parse_combination ''Shift+CTRL+S'')"
    "\<not> need_alt (parse_combination ''Shift+CTRL+S'')"
    "\<not> need_meta (parse_combination ''Shift+CTRL+S'')"
    using parse_case_and_order_insensitive [of "''Shift+CTRL+S''" "''ctrl+shift+s''" "''s''"]
    by (simp_all add: tokens_mixed)
  have r2: "parse_combination ''CTRL+Shift+s'' = parse_combination ''ctrl+shift+s''"
    using parse_case_and_order_insensitive [of "''CTRL+Shift+s''" "''ctrl+shift+s''" "''s''"] c
    by blast
  from p l c r0 r1 r2 r3 show ?thesis by blast
qed

section \<open>Listener registration and release\<close>

lemma removeEventListener_after_add:
  "h \<notin> set ls \<Longrightarrow> removeEventListener h (addEventListener h ls) = ls"
  by (simp add: removeEventListener_def addEventListener_def remove1_append)

lemma fresh_not_registered:
  "list_all (\<lambda>h. h < n) ls \<Longrightarrow> (n::nat) \<notin> set ls"
  by (auto simp add: list_all_iff)

text \<open>
  C7: unmounting removes exactly the listeners that mounting added. From a state in which
  every registered closure is older than the next one, mounting a control adds one
  \<open>change\<close> listener, and one \<open>keydown\<close> listener when the shortcut is truthy; running the
  cleanups afterwards gives back the \<open>keydown\<close> and \<open>change\<close> listener lists of before
  the mount.
\<close>

theorem unmount_releases_listeners:
  assumes "closures_known d"
  shows "keydown_listeners (unmount (snd (mount props d)) (fst (mount props d))) = keydown_listeners d
       \<and> change_listeners (unmount (snd (mount props d)) (fst (mount props d))) = change_listeners d
       \<and> length (change_listeners (fst (mount props d))) = Suc (length (change_listeners d))
       \<and> length (keydown_listeners (fst (mount props d))) =
           (if truthy_string (keyboardShortcut props) then Suc (length (keydown_listeners d))
            else length (keydown_listeners d))"
proof -
  from assms have k: "next_closure d \<notin> set (keydown_listeners d)"
    and c: "next_closure d \<notin> set (change_listeners d)"
    by (simp_all add: closures_known_def fresh_not_registered)
  from assms have k': "Suc (next_closure d) \<notin> set (keydown_listeners d)"
    by (auto simp add: closures_known_def list_all_iff)
  show ?thesis
  proof (cases "truthy_string (keyboardShortcut props)")
    case True
    with k k' c show ?thesis
      by (simp add: mount_def unmount_def highContrast_effect_def shortcut_effect_def Let_def
            removeEventListener_after_add)
        (simp add: addEventListener_def)
  next
    case False
    with k c show ?thesis
      by (simp add: mount_def unmount_def highContrast_effect_def shortcut_effect_def Let_def
            removeEventListener_after_add)
        (simp add: addEventListener_def)
  qed
qed

theorem unmount_releases_listeners_witness:
  "closures_known \<lparr>keydown_listeners = [], change_listeners = [], next_closure = 0\<rparr>
   \<and> keydown_listeners
       (fst (mount \<lparr>disabled = False, isLoading = False, disableAnimation = False,
                    keyboardShortcut = Some ''ctrl+k'', rippleColor = None, rippleDuration = 600,
                    onClick = True\<rparr>
              \<lparr>keydown_listeners = [], change_listeners = [], next_closure = 0\<rparr>)) = [1]
   \<and> change_listeners
       (fst (mount \<lparr>disabled = False, isLoading = False, disableAnimation = False,
                    keyboardShortcut = Some ''ctrl+k'', rippleColor = None, rippleDuration = 600,
                    onClick = True\<rparr>
              \<lparr>keydown_listeners = [], change_listeners = [], next_closure = 0\<rparr>)) = [0]
   \<and> keydown_listeners
       (unmount
          (snd (mount \<lparr>disabled = False, isLoading = False, disableAnimation = False,
                       keyboardShortcut = Some ''ctrl+k'', rippleColor = None, rippleDuration = 600,
                       onClick = True\<rparr>
                 \<lparr>keydown_listeners = [], change_listeners = [], next_closure = 0\<rparr>))
          (fst (mount \<lparr>disabled = False, isLoading = False, disableAnimation = False,
                       keyboardShortcut = Some ''ctrl+k'', rippleColor = None, rippleDuration = 600,
                       onClick = True\<rparr>
                 \<lparr>keydown_listeners = [], change_listeners = [], next_closure = 0\<rparr>))) = []
   \<and> change_listeners
       (unmount
          (snd (mount \<lparr>disabled = False, isLoading = False, disableAnimation = False,
                       keyboardShortcut = Some ''ctrl+k'', rippleColor = None, rippleDuration = 600,
                       onClick = True\<rparr>
                 \<lparr>keydown_listeners = [], change_listeners = [], next_closure = 0\<rparr>))
          (fst (mount \<lparr>disabled = False, isLoading = False, disableAnimation = False,
                       keyboardShortcut = Some ''ctrl+k'', rippleColor = None, rippleDuration = 600,
                       onClick = True\<rparr>
                 \<lparr>keydown_listeners = [], change_listeners = [], next_closure = 0\<rparr>))) = []"
proof -
  let ?d = "\<lparr>keydown_listeners = [], change_listeners = [], next_closure = 0\<rparr>"
  let ?props = "\<lparr>disabled = False, isLoading = False, disableAnimation = False,
                    keyboardShortcut = Some ''ctrl+k'', rippleColor = None, rippleDuration = 600,
                    onClick = True\<rparr>"
  have w: "closures_known ?d"
    by (simp add: closures_known_def)
  have m: "keydown_listeners (fst (mount ?props ?d)) = [1]"
    "change_listeners (fst (mount ?props ?d)) = [0]"
    by (simp_all add: mount_def highContrast_effect_def shortcut_effect_def Let_def
          addEventListener_def)
  show ?thesis
    using unmount_releases_listeners [OF w, of ?props] w m by simp
qed

section \<open>Rounding\<close>

lemma round_half_even_error: "\<bar>of_int (round_half_even y) - y\<bar> \<le> 1 / 2"
  unfolding round_half_even_def Let_def by (auto simp: abs_le_iff)

lemma round_half_even_of_int: "round_half_even (of_int m) = m"
  by (simp add: round_half_even_def)

lemma binade_lower:
  assumes "x \<noteq> 0"
  shows "2 powi binade x \<le> \<bar>x\<bar>"
proof (cases "1 \<le> \<bar>x\<bar>")
  case True
  let ?n = "\<lfloor>\<bar>x\<bar>\<rfloor>"
  from True have n: "0 < ?n"
    by linarith
  from bitlen_bounds [OF n] have "2 ^ nat (bitlen ?n - 1) \<le> ?n" ..
  then have "(2::real) ^ nat (bitlen ?n - 1) \<le> of_int ?n"
    by (metis of_int_le_iff of_int_numeral of_int_power)
  also have "\<dots> \<le> \<bar>x\<bar>"
    by linarith
  finally have "(2::real) ^ nat (bitlen ?n - 1) \<le> \<bar>x\<bar>" .
  moreover from n have "1 \<le> bitlen ?n"
    by (auto simp: bitlen_alt_def)
  ultimately show ?thesis
    using True by (simp add: binade_def power_int_nonneg_exp)
next
  case False
  let ?y = "1 / \<bar>x\<bar>"
  let ?m = "\<lceil>?y\<rceil> - 1"
  from False assms have y: "1 < ?y"
    by simp
  then have m: "0 < ?m"
    by linarith
  from bitlen_bounds [OF m] have "?m < 2 ^ nat (bitlen ?m)" ..
  then have "\<lceil>?y\<rceil> \<le> 2 ^ nat (bitlen ?m)"
    by linarith
  then have "?y \<le> 2 ^ nat (bitlen ?m)"
    by (metis ceiling_le_iff of_int_numeral of_int_power)
  then have "1 / 2 ^ nat (bitlen ?m) \<le> \<bar>x\<bar>"
    using assms by (simp add: field_simps)
  moreover have "(2::real) powi (- bitlen ?m) = 1 / 2 ^ nat (bitlen ?m)"
    using bitlen_nonneg [of ?m] by (simp add: power_int_minus power_int_nonneg_exp field_simps)
  ultimately show ?thesis
    using False by (simp add: binade_def)
qed

text \<open>
  Rounding moves a number by at most \<open>2^-53\<close> of its magnitude, or by \<open>2^-1075\<close> in the
  subnormal range.
\<close>

lemma quantum_positive: "0 < quantum x"
  by (simp add: quantum_def)

lemma underflow_error_positive: "0 < underflow_error"
  by (simp add: underflow_error_def)

lemma fl_error: "\<bar>fl x - x\<bar> \<le> \<bar>x\<bar> / 2 ^ 53 + underflow_error"
proof (cases "x = 0")
  case True
  then show ?thesis
    using underflow_error_positive by (simp add: fl_def)
next
  case False
  let ?s = "quantum x"
  have s: "0 < ?s"
    by (rule quantum_positive)
  have "fl x - x = (of_int (round_half_even (x / ?s)) - x / ?s) * ?s"
    using False s by (simp add: fl_def field_simps)
  then have "\<bar>fl x - x\<bar> = \<bar>of_int (round_half_even (x / ?s)) - x / ?s\<bar> * ?s"
    using s by (simp add: abs_mult)
  also have "\<dots> \<le> 1 / 2 * ?s"
    using round_half_even_error [of "x / ?s"] s by (intro mult_right_mono) simp_all
  also have "\<dots> \<le> \<bar>x\<bar> / 2 ^ 53 + underflow_error"
  proof (cases "- 1074 \<le> binade x - 52")
    case True
    then have "max (binade x - 52) (- 1074) = binade x - 52"
      by simp
    then have "?s = 2 powi (binade x - 52)"
      by (simp only: quantum_def)
    then have "1 / 2 * ?s = 2 powi binade x / 2 ^ 53"
      by (simp add: power_int_diff)
    also have "\<dots> \<le> \<bar>x\<bar> / 2 ^ 53"
      using binade_lower [OF \<open>x \<noteq> 0\<close>] by (simp add: divide_right_mono)
    also have "\<dots> \<le> \<bar>x\<bar> / 2 ^ 53 + underflow_error"
      using underflow_error_positive by simp
    finally show ?thesis .
  next
    case False
    then have "max (binade x - 52) (- 1074) = - 1074"
      by simp
    then have "?s = 2 powi (- 1074)"
      by (simp only: quantum_def)
    moreover have "(2::real) powi (- 1074) = 2 powi 1 * 2 powi (- 1075)"
      by (simp flip: power_int_add)
    ultimately have "1 / 2 * ?s = underflow_error"
      by (simp add: underflow_error_def)
    also have "\<dots> \<le> \<bar>x\<bar> / 2 ^ 53 + underflow_error"
      using underflow_error_positive by simp
    finally show ?thesis .
  qed
  finally show ?thesis .
qed

text \<open>A binary64 number is kept: a significand below \<open>2^53\<close> times a power of two from \<open>2^-1074\<close>.\<close>

lemma fl_representable:
  assumes "x = of_int m * 2 powi k" and "\<bar>m\<bar> < 2 ^ 53" and "- 1074 \<le> k"
  shows "fl x = x"
proof (cases "x = 0")
  case True
  then show ?thesis
    by (simp add: fl_def)
next
  case False
  let ?j = "max (binade x - 52) (- 1074)"
  have "2 powi binade x \<le> \<bar>x\<bar>"
    by (rule binade_lower [OF False])
  also have "\<bar>x\<bar> = of_int \<bar>m\<bar> * 2 powi k"
    by (simp add: assms abs_mult)
  also have "\<dots> < 2 ^ 53 * 2 powi k"
  proof -
    from assms(2) have "(of_int \<bar>m\<bar> :: real) < of_int (2 ^ 53)"
      by (simp only: of_int_less_iff)
    then show ?thesis
      by (intro mult_strict_right_mono) simp_all
  qed
  also have "\<dots> = 2 powi (53 + k)"
    by (simp add: power_int_add)
  finally have lt: "(2::real) powi binade x < 2 powi (53 + k)" .
  have "binade x < 53 + k"
  proof (rule ccontr)
    assume "\<not> binade x < 53 + k"
    then have "53 + k \<le> binade x"
      by simp
    then have "(2::real) powi (53 + k) \<le> 2 powi binade x"
      by (intro power_int_increasing) simp_all
    with lt show False
      by simp
  qed
  with assms(3) have "0 \<le> k - ?j"
    by simp
  then obtain j :: nat where j: "k - ?j = int j"
    using zero_le_imp_eq_int by blast
  have "x / quantum x = of_int m * 2 powi (k - ?j)"
    by (simp add: assms(1) quantum_def power_int_diff)
  also have "\<dots> = of_int (m * 2 ^ j)"
    by (simp add: j)
  finally have q: "x / quantum x = of_int (m * 2 ^ j)" .
  have r: "round_half_even (x / quantum x) = m * 2 ^ j"
    by (simp only: q round_half_even_of_int)
  from False have "fl x = of_int (m * 2 ^ j) * quantum x"
    by (simp only: fl_def r if_False)
  also have "\<dots> = of_int (m * 2 ^ j) * 2 powi ?j"
    by (simp only: quantum_def)
  also have "\<dots> = of_int m * 2 powi (int j + ?j)"
    by (simp add: power_int_add)
  also have "int j + ?j = k"
    using j by simp
  finally show ?thesis
    by (simp add: assms(1))
qed

lemma fl_of_int: "\<bar>m\<bar> < 2 ^ 53 \<Longrightarrow> fl (of_int m) = of_int m"
  using fl_representable [of "of_int m" m 0] by simp

lemma fl_zero: "fl 0 = 0"
  by (simp add: fl_def)

lemma fl_numeral: "(numeral n :: int) < 2 ^ 53 \<Longrightarrow> fl (numeral n) = numeral n"
  using fl_of_int [of "numeral n"] by simp

lemma fl_neg_numeral: "(numeral n :: int) < 2 ^ 53 \<Longrightarrow> fl (- numeral n) = - numeral n"
  using fl_of_int [of "- numeral n"] by simp

text \<open>
  The offset the code computes for an activation point at distance \<open>a\<close> from the host's
  edge and a node of size \<open>s\<close> puts the node's centre within
  \<open>s / 2^51 + 4 * underflow_error\<close> of \<open>a\<close>.
\<close>

lemma centre_error:
  assumes "0 \<le> a" and "a \<le> s + underflow_error"
  shows "\<bar>js_minus (fl a) (js_divide s 2) + s / 2 - a\<bar> \<le> s / 2 ^ 51 + 4 * underflow_error"
proof -
  define d where "d = underflow_error"
  let ?h = "fl (s / 2)"
  let ?y = "fl a - ?h"
  have p53: "(2::real) ^ 53 = 9007199254740992" and p51: "(2::real) ^ 51 = 2251799813685248"
    by simp_all
  have d: "0 < d"
    unfolding d_def by (rule underflow_error_positive)
  have a: "a \<le> s + d"
    using assms(2) unfolding d_def .
  from a assms(1) have s: "0 \<le> s + d"
    by linarith
  have e1: "\<bar>fl a - a\<bar> \<le> a / 9007199254740992 + d"
    using fl_error [of a] assms(1) unfolding p53 d_def by simp
  have e2: "\<bar>?h - s / 2\<bar> \<le> \<bar>s / 2\<bar> / 9007199254740992 + d"
    using fl_error [of "s / 2"] unfolding p53 d_def .
  have e3: "\<bar>fl ?y - ?y\<bar> \<le> \<bar>?y\<bar> / 9007199254740992 + d"
    using fl_error [of ?y] unfolding p53 d_def .
  have sa: "\<bar>s / 2\<bar> \<le> s / 2 + d"
    using s d by linarith
  have y: "\<bar>?y\<bar> \<le> 2 * s + 6 * d"
    using e1 e2 sa a assms(1) d by linarith
  have e1': "\<bar>fl a - a\<bar> \<le> (s + d) / 9007199254740992 + d"
  proof -
    from a have "a / 9007199254740992 \<le> (s + d) / 9007199254740992"
      by (rule divide_right_mono) simp
    with e1 show ?thesis
      by linarith
  qed
  have e2': "\<bar>?h - s / 2\<bar> \<le> (s / 2 + d) / 9007199254740992 + d"
  proof -
    from sa have "\<bar>s / 2\<bar> / 9007199254740992 \<le> (s / 2 + d) / 9007199254740992"
      by (rule divide_right_mono) simp
    with e2 show ?thesis
      by linarith
  qed
  have e3': "\<bar>fl ?y - ?y\<bar> \<le> (2 * s + 6 * d) / 9007199254740992 + d"
  proof -
    from y have "\<bar>?y\<bar> / 9007199254740992 \<le> (2 * s + 6 * d) / 9007199254740992"
      by (rule divide_right_mono) simp
    with e3 show ?thesis
      by linarith
  qed
  have tri: "\<bar>fl ?y + s / 2 - a\<bar> \<le> \<bar>fl ?y - ?y\<bar> + \<bar>fl a - a\<bar> + \<bar>?h - s / 2\<bar>"
    by linarith
  have "(s + d) / 9007199254740992 + d + ((s / 2 + d) / 9007199254740992 + d)
          + ((2 * s + 6 * d) / 9007199254740992 + d)
        \<le> s / 2251799813685248 + 4 * d"
    using s d by (simp add: field_simps)
  with tri e1' e2' e3' have "\<bar>fl ?y + s / 2 - a\<bar> \<le> s / 2251799813685248 + 4 * d"
    by linarith
  then show ?thesis
    unfolding js_minus_def js_divide_def p51 d_def .
qed

section \<open>Properties of ripple emission\<close>

lemma prefersReducedMotion_window:
  "matchMedia w = Some matches \<Longrightarrow>
   prefersReducedMotion (Some w) = Inr (matches ''(prefers-reduced-motion: reduce)'')"
  by (simp add: prefersReducedMotion_def)

lemma createRippleEffect_reduced_motion:
  "prefersReducedMotion env = Inr True \<Longrightarrow> createRippleEffect env e p = Inr p"
  by (simp add: createRippleEffect_def)

lemma createRippleEffect_returns:
  assumes "matchMedia w = Some matches"
  shows "\<exists>p'. createRippleEffect (Some w) e p = Inr p'
           \<and> onClick_calls p' = onClick_calls p
           \<and> (ripple_container (currentTarget p) = None \<longrightarrow> currentTarget p' = currentTarget p)"
  using assms
  by (simp add: createRippleEffect_def prefersReducedMotion_window Let_def setTimeout_def
        split: option.split)

lemma handleRippleEffect_returns:
  "\<exists>p'. handleRippleEffect props (Some w) e p = Inr p'
         \<and> onClick_calls p' = onClick_calls p
         \<and> (ripple_container (currentTarget p) = None \<longrightarrow> currentTarget p' = currentTarget p)"
  by (simp add: handleRippleEffect_def Let_def setTimeout_def split: option.split)

lemma Button_onClick_attribute_returns:
  assumes "matchMedia w = Some matches"
  shows "\<exists>p'. Button_onClick_attribute props (Some w) e p = Inr p'
           \<and> onClick_calls p' =
               (if \<not> disabled props \<and> \<not> isLoading props \<and> onClick props
                then Suc (onClick_calls p) else onClick_calls p)"
proof -
  obtain p1 where 1: "createRippleEffect (Some w) e p = Inr p1"
    and c1: "onClick_calls p1 = onClick_calls p"
    using createRippleEffect_returns [OF assms] by blast
  obtain p2 where 2: "handleRippleEffect props (Some w) e p = Inr p2"
    and c2: "onClick_calls p2 = onClick_calls p"
    using handleRippleEffect_returns by blast
  show ?thesis
    by (simp add: Button_onClick_attribute_def 1 2 c1 c2)
qed

lemma Button_onClick_returns:
  assumes "matchMedia w = Some matches"
  shows "\<exists>p'. Button_onClick props (Some w) e p = Inr p'
           \<and> onClick_calls p' =
               (if onClick props then Suc (onClick_calls p) else onClick_calls p)"
  using Button_onClick_attribute_returns [OF assms, of props e p]
  by (auto simp add: Button_onClick_def)

lemma remove_returns:
  "\<exists>p'. remove n p = Inr p' \<and> (\<not> in_tree n p \<longrightarrow> p' = p)
         \<and> (ripple_container (currentTarget p) = None \<longrightarrow> ripple_container (currentTarget p') = None)
         \<and> timeouts p' = timeouts p \<and> next_node p' = next_node p
         \<and> onClick_calls p' = onClick_calls p"
  by (simp add: remove_def removeChild_def in_tree_def split: option.split)

lemma run_callbacks_returns:
  "\<exists>p'. run_callbacks ts p = Inr p'"
proof (induction ts arbitrary: p)
  case Nil
  show ?case
    by simp
next
  case (Cons t ts)
  obtain ms n where t: "t = (ms, n)"
    by (cases t)
  obtain p1 where 1: "remove n p = Inr p1"
    using remove_returns by blast
  from Cons.IH [of p1] show ?case
    by (simp add: t 1)
qed

lemma run_callbacks_absent:
  assumes "list_all (\<lambda>t. \<not> in_tree (snd t) p) ts"
  shows "run_callbacks ts p = Inr p"
  using assms
proof (induction ts)
  case Nil
  show ?case
    by simp
next
  case (Cons t ts)
  obtain ms n where t: "t = (ms, n)"
    by (cases t)
  from Cons.prems t have "\<not> in_tree n p"
    by simp
  then have "remove n p = Inr p"
    using remove_returns [of n p] by auto
  with Cons t show ?case
    by simp
qed

lemma fire_timeouts_returns:
  "\<exists>q'. fire_timeouts q = Inr q'
         \<and> (list_all (\<lambda>t. \<not> in_tree (snd t) q) (timeouts q) \<longrightarrow> q' = q\<lparr>timeouts := []\<rparr>)"
proof -
  obtain q' where 1: "run_callbacks (timeouts q) (q\<lparr>timeouts := []\<rparr>) = Inr q'"
    using run_callbacks_returns by blast
  have "in_tree n (q\<lparr>timeouts := []\<rparr>) = in_tree n q" for n
    by (simp add: in_tree_def)
  then have "list_all (\<lambda>t. \<not> in_tree (snd t) q) (timeouts q) \<longrightarrow>
      run_callbacks (timeouts q) (q\<lparr>timeouts := []\<rparr>) = Inr (q\<lparr>timeouts := []\<rparr>)"
    using run_callbacks_absent [of "q\<lparr>timeouts := []\<rparr>" "timeouts q"] by simp
  with 1 show ?thesis
    by (auto simp add: fire_timeouts_def)
qed

text \<open>
  C8, as the code has it: in a browser, that is with a window that has \<open>matchMedia\<close> (and
  with it a document), ripple emission never raises. \<open>createRippleEffect\<close> and
  \<open>handleRippleEffect\<close> return a page for every event, props and page, and on a host with
  no ripple container they leave the host as it is. The Button's click handler returns, and
  on an enabled Button the caller's handler runs exactly once. Running the pending removal
  callbacks returns on every page, and when none of their nodes is still in the tree it
  changes nothing but the list of pending callbacks.
\<close>

theorem ripple_emission_returns_in_browser:
  assumes "matchMedia w = Some matches"
  shows "(\<exists>p'. createRippleEffect (Some w) e p = Inr p'
            \<and> (ripple_container (currentTarget p) = None \<longrightarrow> currentTarget p' = currentTarget p))
       \<and> (\<exists>p'. handleRippleEffect props (Some w) e p = Inr p'
            \<and> (ripple_container (currentTarget p) = None \<longrightarrow> currentTarget p' = currentTarget p))
       \<and> (\<exists>p'. Button_onClick props (Some w) e p = Inr p'
            \<and> (\<not> disabled props \<and> \<not> isLoading props \<and> onClick props \<longrightarrow>
                 onClick_calls p' = Suc (onClick_calls p)))
       \<and> (\<exists>q'. fire_timeouts q = Inr q'
            \<and> (list_all (\<lambda>t. \<not> in_tree (snd t) q) (timeouts q) \<longrightarrow> q' = q\<lparr>timeouts := []\<rparr>))"
proof (intro conjI)
  show "\<exists>p'. createRippleEffect (Some w) e p = Inr p'
            \<and> (ripple_container (currentTarget p) = None \<longrightarrow> currentTarget p' = currentTarget p)"
    using createRippleEffect_returns [OF assms, of e p] by auto
  show "\<exists>p'. handleRippleEffect props (Some w) e p = Inr p'
            \<and> (ripple_container (currentTarget p) = None \<longrightarrow> currentTarget p' = currentTarget p)"
    using handleRippleEffect_returns [of props w e p] by auto
  show "\<exists>p'. Button_onClick props (Some w) e p = Inr p'
            \<and> (\<not> disabled props \<and> \<not> isLoading props \<and> onClick props \<longrightarrow>
                 onClick_calls p' = Suc (onClick_calls p))"
    using Button_onClick_returns [OF assms, of props e p] by auto
  show "\<exists>q'. fire_timeouts q = Inr q'
            \<and> (list_all (\<lambda>t. \<not> in_tree (snd t) q) (timeouts q) \<longrightarrow> q' = q\<lparr>timeouts := []\<rparr>)"
    by (rule fire_timeouts_returns)
qed

theorem ripple_emission_returns_in_browser_witness:
  "matchMedia \<lparr>matchMedia = Some (\<lambda>q. False)\<rparr> = Some (\<lambda>q. False)
   \<and> createRippleEffect (Some \<lparr>matchMedia = Some (\<lambda>q. False)\<rparr>) \<lparr>clientX = 10, clientY = 10\<rparr>
        \<lparr>currentTarget =
           \<lparr>boundingClientRect = \<lparr>rect_left = 0, rect_top = 0, rect_width = 100, rect_height = 40\<rparr>,
            classList = [], computedBorderRadius = ''0px'', ripple_container = None\<rparr>,
         next_node = 0, timeouts = [], onClick_calls = 0\<rparr>
     = Inr \<lparr>currentTarget =
             \<lparr>boundingClientRect = \<lparr>rect_left = 0, rect_top = 0, rect_width = 100, rect_height = 40\<rparr>,
              classList = [], computedBorderRadius = ''0px'', ripple_container = None\<rparr>,
            next_node = 1, timeouts = [(600, 0)], onClick_calls = 0\<rparr>
   \<and> \<not> in_tree 0
        \<lparr>currentTarget =
           \<lparr>boundingClientRect = \<lparr>rect_left = 0, rect_top = 0, rect_width = 100, rect_height = 40\<rparr>,
            classList = [], computedBorderRadius = ''0px'', ripple_container = None\<rparr>,
         next_node = 1, timeouts = [(600, 0)], onClick_calls = 0\<rparr>
   \<and> fire_timeouts
        \<lparr>currentTarget =
           \<lparr>boundingClientRect = \<lparr>rect_left = 0, rect_top = 0, rect_width = 100, rect_height = 40\<rparr>,
            classList = [], computedBorderRadius = ''0px'', ripple_container = None\<rparr>,
         next_node = 1, timeouts = [(600, 0)], onClick_calls = 0\<rparr>
     = Inr \<lparr>currentTarget =
             \<lparr>boundingClientRect = \<lparr>rect_left = 0, rect_top = 0, rect_width = 100, rect_height = 40\<rparr>,
              classList = [], computedBorderRadius = ''0px'', ripple_container = None\<rparr>,
            next_node = 1, timeouts = [], onClick_calls = 0\<rparr>
   \<and> (\<exists>p'. Button_onClick
              \<lparr>disabled = False, isLoading = False, disableAnimation = False,
               keyboardShortcut = None, rippleColor = Some ''#ff0000'', rippleDuration = 300,
               onClick = True\<rparr>
              (Some \<lparr>matchMedia = Some (\<lambda>q. False)\<rparr>) \<lparr>clientX = 10, clientY = 10\<rparr>
              \<lparr>currentTarget =
                 \<lparr>boundingClientRect = \<lparr>rect_left = 0, rect_top = 0, rect_width = 100, rect_height = 40\<rparr>,
                  classList = [], computedBorderRadius = ''0px'', ripple_container = None\<rparr>,
               next_node = 0, timeouts = [], onClick_calls = 0\<rparr> = Inr p'
            \<and> onClick_calls p' = 1)
   \<and> (\<exists>p'. handleRippleEffect
              \<lparr>disabled = False, isLoading = False, disableAnimation = False,
               keyboardShortcut = None, rippleColor = Some ''#ff0000'', rippleDuration = 300,
               onClick = True\<rparr>
              (Some \<lparr>matchMedia = Some (\<lambda>q. False)\<rparr>) \<lparr>clientX = 10, clientY = 10\<rparr>
              \<lparr>currentTarget =
                 \<lparr>boundingClientRect = \<lparr>rect_left = 0, rect_top = 0, rect_width = 100, rect_height = 40\<rparr>,
                  classList = [], computedBorderRadius = ''0px'', ripple_container = None\<rparr>,
               next_node = 0, timeouts = [], onClick_calls = 0\<rparr> = Inr p'
            \<and> ripple_container (currentTarget p') = None)"
proof -
  let ?w = "\<lparr>matchMedia = Some (\<lambda>q. False)\<rparr>"
  let ?p = "\<lparr>currentTarget =
           \<lparr>boundingClientRect = \<lparr>rect_left = 0, rect_top = 0, rect_width = 100, rect_height = 40\<rparr>,
            classList = [], computedBorderRadius = ''0px'', ripple_container = None\<rparr>,
         next_node = 0, timeouts = [], onClick_calls = 0\<rparr>"
  let ?q = "\<lparr>currentTarget =
           \<lparr>boundingClientRect = \<lparr>rect_left = 0, rect_top = 0, rect_width = 100, rect_height = 40\<rparr>,
            classList = [], computedBorderRadius = ''0px'', ripple_container = None\<rparr>,
         next_node = 1, timeouts = [(600, 0)], onClick_calls = 0\<rparr>"
  let ?props = "\<lparr>disabled = False, isLoading = False, disableAnimation = False,
               keyboardShortcut = None, rippleColor = Some ''#ff0000'', rippleDuration = 300,
               onClick = True\<rparr>"
  let ?e = "\<lparr>clientX = 10, clientY = 10\<rparr>"
  have m: "matchMedia ?w = Some (\<lambda>q. False)"
    by simp
  have c: "createRippleEffect (Some ?w) ?e ?p = Inr ?q"
    by (simp add: createRippleEffect_def prefersReducedMotion_def Let_def setTimeout_def)
  have t: "\<not> in_tree 0 ?q"
    by (simp add: in_tree_def)
  note inst = ripple_emission_returns_in_browser [OF m, of ?e ?p ?props ?q]
  from inst t have f: "fire_timeouts ?q = Inr (?q\<lparr>timeouts := []\<rparr>)"
    by auto
  from inst have b: "\<exists>p'. Button_onClick ?props (Some ?w) ?e ?p = Inr p' \<and> onClick_calls p' = 1"
    by simp
  from inst have h: "\<exists>p'. handleRippleEffect ?props (Some ?w) ?e ?p = Inr p'
      \<and> ripple_container (currentTarget p') = None"
    by auto
  from m c t f b h show ?thesis
    by simp
qed

text \<open>
  C8 as stated fails outside a browser. Where \<open>window\<close> is undefined,
  \<open>createRippleEffect\<close> passes the reduced-motion guard and raises a \<open>ReferenceError\<close> at
  \<open>document.createElement\<close>; with a window that has no \<open>matchMedia\<close> it raises a
  \<open>TypeError\<close> at the reduced-motion query; and the Button's click handler raises with it on
  both of its ripple paths.
\<close>

theorem ripple_emission_raises_outside_browser:
  "createRippleEffect None \<lparr>clientX = 10, clientY = 10\<rparr>
     \<lparr>currentTarget =
        \<lparr>boundingClientRect = \<lparr>rect_left = 0, rect_top = 0, rect_width = 100, rect_height = 40\<rparr>,
         classList = [], computedBorderRadius = ''0px'', ripple_container = Some []\<rparr>,
      next_node = 0, timeouts = [], onClick_calls = 0\<rparr>
     = Inl ReferenceError
   \<and> createRippleEffect (Some \<lparr>matchMedia = None\<rparr>) \<lparr>clientX = 10, clientY = 10\<rparr>
     \<lparr>currentTarget =
        \<lparr>boundingClientRect = \<lparr>rect_left = 0, rect_top = 0, rect_width = 100, rect_height = 40\<rparr>,
         classList = [], computedBorderRadius = ''0px'', ripple_container = Some []\<rparr>,
      next_node = 0, timeouts = [], onClick_calls = 0\<rparr>
     = Inl TypeError
   \<and> Button_onClick
       \<lparr>disabled = False, isLoading = False, disableAnimation = False,
        keyboardShortcut = None, rippleColor = None, rippleDuration = 600, onClick = False\<rparr>
       None \<lparr>clientX = 10, clientY = 10\<rparr>
     \<lparr>currentTarget =
        \<lparr>boundingClientRect = \<lparr>rect_left = 0, rect_top = 0, rect_width = 100, rect_height = 40\<rparr>,
         classList = [], computedBorderRadius = ''0px'', ripple_container = Some []\<rparr>,
      next_node = 0, timeouts = [], onClick_calls = 0\<rparr>
     = Inl ReferenceError
   \<and> Button_onClick
       \<lparr>disabled = False, isLoading = False, disableAnimation = False,
        keyboardShortcut = None, rippleColor = Some ''#ff0000'', rippleDuration = 600, onClick = False\<rparr>
       None \<lparr>clientX = 10, clientY = 10\<rparr>
     \<lparr>currentTarget =
        \<lparr>boundingClientRect = \<lparr>rect_left = 0, rect_top = 0, rect_width = 100, rect_height = 40\<rparr>,
         classList = [], computedBorderRadius = ''0px'', ripple_container = Some []\<rparr>,
      next_node = 0, timeouts = [], onClick_calls = 0\<rparr>
     = Inl ReferenceError"
  by (simp add: Button_onClick_def Button_onClick_attribute_def handleRippleEffect_def
        createRippleEffect_def prefersReducedMotion_def)

lemma Button_onClick_guards:
  assumes "disabled props \<or> isLoading props \<or> disableAnimation props"
    and "Button_onClick props env e p = Inr p'"
  shows "currentTarget p' = currentTarget p \<and> next_node p' = next_node p"
  using assms
  by (auto simp add: Button_onClick_def Button_onClick_attribute_def split: if_splits)

lemma Button_onClick_default_path_reduced_motion:
  assumes "prefersReducedMotion env = Inr True"
    and "\<not> truthy_string (rippleColor props)" and "rippleDuration props = 600"
    and "Button_onClick props env e p = Inr p'"
  shows "currentTarget p' = currentTarget p \<and> next_node p' = next_node p"
  using assms
  by (auto simp add: Button_onClick_def Button_onClick_attribute_def
        createRippleEffect_reduced_motion split: if_splits)

lemma Fab_onClick_guards:
  assumes "prefersReducedMotion env = Inr True \<or> disabled props \<or> disableAnimation props"
    and "Fab_onClick props env e p = Inr p'"
  shows "currentTarget p' = currentTarget p \<and> next_node p' = next_node p"
  using assms
  by (auto simp add: Fab_onClick_def Fab_onClick_attribute_def createRippleEffect_reduced_motion
        split: if_splits)

text \<open>
  C1: the claim is that no ripple node is created while reduced motion is active, on every
  path. The evaluation below is of the Button's \<open>onClick\<close> with reduced motion active, on
  an enabled Button with animation on: with the default ripple settings no node is created,
  but with a custom \<open>rippleColor\<close>, or with a \<open>rippleDuration\<close> other than 600, node 0 is
  created and inserted, because \<open>handleRippleEffect\<close> does not ask for the preference.
\<close>

theorem Button_custom_ripple_ignores_reduced_motion:
  "prefersReducedMotion
     (Some \<lparr>matchMedia = Some (\<lambda>q. q = ''(prefers-reduced-motion: reduce)'')\<rparr>)
     = Inr True
   \<and> Button_onClick
       \<lparr>disabled = False, isLoading = False, disableAnimation = False,
        keyboardShortcut = None, rippleColor = None, rippleDuration = 600, onClick = False\<rparr>
       (Some \<lparr>matchMedia = Some (\<lambda>q. q = ''(prefers-reduced-motion: reduce)'')\<rparr>)
       \<lparr>clientX = 10, clientY = 10\<rparr>
       \<lparr>currentTarget =
          \<lparr>boundingClientRect = \<lparr>rect_left = 0, rect_top = 0, rect_width = 100, rect_height = 40\<rparr>,
           classList = [], computedBorderRadius = ''0px'', ripple_container = Some []\<rparr>,
        next_node = 0, timeouts = [], onClick_calls = 0\<rparr>
     = Inr \<lparr>currentTarget =
          \<lparr>boundingClientRect = \<lparr>rect_left = 0, rect_top = 0, rect_width = 100, rect_height = 40\<rparr>,
           classList = [], computedBorderRadius = ''0px'', ripple_container = Some []\<rparr>,
        next_node = 0, timeouts = [], onClick_calls = 0\<rparr>
   \<and> Button_onClick
       \<lparr>disabled = False, isLoading = False, disableAnimation = False,
        keyboardShortcut = None, rippleColor = Some ''#ff0000'', rippleDuration = 600, onClick = False\<rparr>
       (Some \<lparr>matchMedia = Some (\<lambda>q. q = ''(prefers-reduced-motion: reduce)'')\<rparr>)
       \<lparr>clientX = 10, clientY = 10\<rparr>
       \<lparr>currentTarget =
          \<lparr>boundingClientRect = \<lparr>rect_left = 0, rect_top = 0, rect_width = 100, rect_height = 40\<rparr>,
           classList = [], computedBorderRadius = ''0px'', ripple_container = Some []\<rparr>,
        next_node = 0, timeouts = [], onClick_calls = 0\<rparr>
     = Inr \<lparr>currentTarget =
          \<lparr>boundingClientRect = \<lparr>rect_left = 0, rect_top = 0, rect_width = 100, rect_height = 40\<rparr>,
           classList = [], computedBorderRadius = ''0px'',
           ripple_container = Some
             [\<lparr>node_id = 0, className = ''ripple-effect'', style_width = 100, style_height = 100,
               style_left = - 40, style_top = - 40, style_backgroundColor = Some ''#ff0000'',
               style_borderRadius = None\<rparr>]\<rparr>,
        next_node = 1, timeouts = [(600, 0)], onClick_calls = 0\<rparr>
   \<and> Button_onClick
       \<lparr>disabled = False, isLoading = False, disableAnimation = False,
        keyboardShortcut = None, rippleColor = None, rippleDuration = 300, onClick = False\<rparr>
       (Some \<lparr>matchMedia = Some (\<lambda>q. q = ''(prefers-reduced-motion: reduce)'')\<rparr>)
       \<lparr>clientX = 10, clientY = 10\<rparr>
       \<lparr>currentTarget =
          \<lparr>boundingClientRect = \<lparr>rect_left = 0, rect_top = 0, rect_width = 100, rect_height = 40\<rparr>,
           classList = [], computedBorderRadius = ''0px'', ripple_container = Some []\<rparr>,
        next_node = 0, timeouts = [], onClick_calls = 0\<rparr>
     = Inr \<lparr>currentTarget =
          \<lparr>boundingClientRect = \<lparr>rect_left = 0, rect_top = 0, rect_width = 100, rect_height = 40\<rparr>,
           classList = [], computedBorderRadius = ''0px'',
           ripple_container = Some
             [\<lparr>node_id = 0, className = ''ripple-effect'', style_width = 100, style_height = 100,
               style_left = - 40, style_top = - 40, style_backgroundColor = None,
               style_borderRadius = None\<rparr>]\<rparr>,
        next_node = 1, timeouts = [(300, 0)], onClick_calls = 0\<rparr>"
  by (simp add: Button_onClick_def Button_onClick_attribute_def handleRippleEffect_def
        createRippleEffect_def prefersReducedMotion_def Let_def setTimeout_def
        js_minus_def js_divide_def fl_numeral fl_neg_numeral)

lemma class_tokens_ripple_effect: "class_tokens ''ripple-effect'' = [''ripple-effect'']"
  by (simp add: class_tokens_def is_ascii_whitespace_def)

lemma matches_class_new_ripple:
  "className r = ''ripple-effect'' \<Longrightarrow> matches_class ''ripple-effect'' r"
  by (simp add: matches_class_def class_tokens_ripple_effect)

lemma filter_ripples_cleared:
  "filter (matches_class c) (filter (\<lambda>k. \<not> matches_class c k) kids) = []"
  by (induction kids) simp_all

lemma createRippleEffect_inserts:
  assumes "matchMedia w = Some matches"
    and "\<not> matches ''(prefers-reduced-motion: reduce)''"
    and "ripple_container (currentTarget p) = Some kids"
  shows "createRippleEffect (Some w) e p =
     Inr (p\<lparr>currentTarget := (currentTarget p)\<lparr>ripple_container := Some (kids @
             [\<lparr>node_id = next_node p, className = ''ripple-effect'',
               style_width = max (rect_width (boundingClientRect (currentTarget p)))
                                 (rect_height (boundingClientRect (currentTarget p))),
               style_height = max (rect_width (boundingClientRect (currentTarget p)))
                                  (rect_height (boundingClientRect (currentTarget p))),
               style_left =
                 js_minus (fl (clientX e - rect_left (boundingClientRect (currentTarget p))))
                   (js_divide (max (rect_width (boundingClientRect (currentTarget p)))
                                   (rect_height (boundingClientRect (currentTarget p)))) 2),
               style_top =
                 js_minus (fl (clientY e - rect_top (boundingClientRect (currentTarget p))))
                   (js_divide (max (rect_width (boundingClientRect (currentTarget p)))
                                   (rect_height (boundingClientRect (currentTarget p)))) 2),
               style_backgroundColor = None, style_borderRadius = None\<rparr>])\<rparr>,
           next_node := Suc (next_node p),
           timeouts := timeouts p @ [(600, next_node p)]\<rparr>)"
  using assms
  by (simp add: createRippleEffect_def prefersReducedMotion_def Let_def setTimeout_def
        js_minus_def [of "clientX e"] js_minus_def [of "clientY e"])

lemma createRippleEffect_clearing_inserts:
  assumes "matchMedia w = Some matches"
    and "\<not> matches ''(prefers-reduced-motion: reduce)''"
  shows "\<exists>p' n radius. createRippleEffect_clearing (Some w) e p = Inr p'
     \<and> ripples p' =
             [\<lparr>node_id = n, className = ''ripple-effect'',
               style_width = fl (max (rect_width (boundingClientRect (currentTarget p)))
                                     (rect_height (boundingClientRect (currentTarget p))) * 2),
               style_height = fl (max (rect_width (boundingClientRect (currentTarget p)))
                                      (rect_height (boundingClientRect (currentTarget p))) * 2),
               style_left =
                 js_minus (fl (clientX e - rect_left (boundingClientRect (currentTarget p))))
                   (js_divide (fl (max (rect_width (boundingClientRect (currentTarget p)))
                                       (rect_height (boundingClientRect (currentTarget p))) * 2)) 2),
               style_top =
                 js_minus (fl (clientY e - rect_top (boundingClientRect (currentTarget p))))
                   (js_divide (fl (max (rect_width (boundingClientRect (currentTarget p)))
                                       (rect_height (boundingClientRect (currentTarget p))) * 2)) 2),
               style_backgroundColor = None, style_borderRadius = radius\<rparr>]"
  using assms
  by (cases "ripple_container (currentTarget p)")
    (simp_all add: createRippleEffect_clearing_def ensure_container_def prefersReducedMotion_def
       Let_def setTimeout_def ripples_def filter_ripples_cleared matches_class_new_ripple
       js_times_def js_minus_def [of "clientX e"] js_minus_def [of "clientY e"])

lemma doubled_size_bounds:
  assumes "0 \<le> m"
  shows "m \<le> fl (m * 2) + underflow_error"
    and "\<bar>fl (m * 2) - 2 * m\<bar> \<le> m / 2 ^ 52 + underflow_error"
proof -
  have p53: "(2::real) ^ 53 = 9007199254740992" and p52: "(2::real) ^ 52 = 4503599627370496"
    by simp_all
  have e: "\<bar>fl (m * 2) - m * 2\<bar> \<le> (m * 2) / 9007199254740992 + underflow_error"
    using fl_error [of "m * 2"] assms unfolding p53 by simp
  from e assms show "m \<le> fl (m * 2) + underflow_error"
    by linarith
  from e assms show "\<bar>fl (m * 2) - 2 * m\<bar> \<le> m / 2 ^ 52 + underflow_error"
    unfolding p52 by linarith
qed

text \<open>
  C4, as the code has it: for an activation point inside the host's bounds, with a window
  whose reduced-motion query does not match, one call of the emitter inserts one ripple
  node whose centre is the activation point relative to the host, up to the rounding of
  the double arithmetic: on each axis the centre is off by at most \<open>2^-51\<close> of the node's
  size plus \<open>2^-1073\<close>, which is \<open>4 * underflow_error\<close>. \<open>createRippleEffect\<close> of
  \<open>utils.ts\<close> does so on a host that has a ripple
  container: the node is appended to the container's children, and its width and height
  are the larger of the host's width and height; on a host with no ripple container it
  inserts nothing. The version that clears earlier ripples does so on every host:
  afterwards the node is the only ripple in the container, and its width and height are
  twice the larger of the host's width and height, as the multiplication rounds it; this
  is for a host below \<open>2^1023\<close> px, where the doubling does not overflow.
\<close>

theorem ripple_centred_on_activation_point:
  assumes "matchMedia w = Some matches"
    and "\<not> matches ''(prefers-reduced-motion: reduce)''"
    and "rect_left (boundingClientRect (currentTarget p)) \<le> clientX e"
    and "clientX e \<le> rect_left (boundingClientRect (currentTarget p))
                      + rect_width (boundingClientRect (currentTarget p))"
    and "rect_top (boundingClientRect (currentTarget p)) \<le> clientY e"
    and "clientY e \<le> rect_top (boundingClientRect (currentTarget p))
                      + rect_height (boundingClientRect (currentTarget p))"
  shows "(ripple_container (currentTarget p) = Some kids \<longrightarrow>
          (\<exists>p' r. createRippleEffect (Some w) e p = Inr p'
             \<and> ripple_container (currentTarget p') = Some (kids @ [r])
             \<and> className r = ''ripple-effect''
             \<and> style_width r = max (rect_width (boundingClientRect (currentTarget p)))
                                    (rect_height (boundingClientRect (currentTarget p)))
             \<and> style_height r = style_width r
             \<and> \<bar>style_left r + style_width r / 2
                  - (clientX e - rect_left (boundingClientRect (currentTarget p)))\<bar>
                 \<le> style_width r / 2 ^ 51 + 4 * underflow_error
             \<and> \<bar>style_top r + style_height r / 2
                  - (clientY e - rect_top (boundingClientRect (currentTarget p)))\<bar>
                 \<le> style_height r / 2 ^ 51 + 4 * underflow_error))
       \<and> (ripple_container (currentTarget p) = None \<longrightarrow>
          (\<exists>p'. createRippleEffect (Some w) e p = Inr p' \<and> currentTarget p' = currentTarget p))
       \<and> (max (rect_width (boundingClientRect (currentTarget p)))
               (rect_height (boundingClientRect (currentTarget p))) < doubling_limit \<longrightarrow>
          (\<exists>p' r. createRippleEffect_clearing (Some w) e p = Inr p'
             \<and> ripples p' = [r]
             \<and> className r = ''ripple-effect''
             \<and> \<bar>style_width r - 2 * max (rect_width (boundingClientRect (currentTarget p)))
                                          (rect_height (boundingClientRect (currentTarget p)))\<bar>
                 \<le> max (rect_width (boundingClientRect (currentTarget p)))
                        (rect_height (boundingClientRect (currentTarget p))) / 2 ^ 52
                   + underflow_error
             \<and> style_height r = style_width r
             \<and> \<bar>style_left r + style_width r / 2
                  - (clientX e - rect_left (boundingClientRect (currentTarget p)))\<bar>
                 \<le> style_width r / 2 ^ 51 + 4 * underflow_error
             \<and> \<bar>style_top r + style_height r / 2
                  - (clientY e - rect_top (boundingClientRect (currentTarget p)))\<bar>
                 \<le> style_height r / 2 ^ 51 + 4 * underflow_error))"
proof -
  let ?R = "boundingClientRect (currentTarget p)"
  let ?a = "clientX e - rect_left ?R"
  let ?b = "clientY e - rect_top ?R"
  define m where "m = max (rect_width ?R) (rect_height ?R)"
  define s where "s = fl (m * 2)"
  define d where "d = underflow_error"
  have d: "0 < d"
    unfolding d_def by (rule underflow_error_positive)
  from assms have a: "0 \<le> ?a" "?a \<le> m" and b: "0 \<le> ?b" "?b \<le> m"
    unfolding m_def by simp_all
  then have m: "0 \<le> m"
    by linarith
  from a b d have a1: "?a \<le> m + d" and b1: "?b \<le> m + d"
    by linarith+
  have cx: "\<bar>js_minus (fl ?a) (js_divide m 2) + m / 2 - ?a\<bar> \<le> m / 2 ^ 51 + 4 * d"
    using centre_error [OF a(1)] a1 unfolding d_def by blast
  have cy: "\<bar>js_minus (fl ?b) (js_divide m 2) + m / 2 - ?b\<bar> \<le> m / 2 ^ 51 + 4 * d"
    using centre_error [OF b(1)] b1 unfolding d_def by blast
  have first: "ripple_container (currentTarget p) = Some kids \<longrightarrow>
          (\<exists>p' r. createRippleEffect (Some w) e p = Inr p'
             \<and> ripple_container (currentTarget p') = Some (kids @ [r])
             \<and> className r = ''ripple-effect''
             \<and> style_width r = m
             \<and> style_height r = style_width r
             \<and> \<bar>style_left r + style_width r / 2 - ?a\<bar> \<le> style_width r / 2 ^ 51 + 4 * d
             \<and> \<bar>style_top r + style_height r / 2 - ?b\<bar> \<le> style_height r / 2 ^ 51 + 4 * d)"
  proof
    assume k: "ripple_container (currentTarget p) = Some kids"
    note ins = createRippleEffect_inserts [OF assms(1) assms(2) k, of e, folded m_def]
    show "\<exists>p' r. createRippleEffect (Some w) e p = Inr p'
             \<and> ripple_container (currentTarget p') = Some (kids @ [r])
             \<and> className r = ''ripple-effect''
             \<and> style_width r = m
             \<and> style_height r = style_width r
             \<and> \<bar>style_left r + style_width r / 2 - ?a\<bar> \<le> style_width r / 2 ^ 51 + 4 * d
             \<and> \<bar>style_top r + style_height r / 2 - ?b\<bar> \<le> style_height r / 2 ^ 51 + 4 * d"
      unfolding ins using cx cy by simp
  qed
  have second: "ripple_container (currentTarget p) = None \<longrightarrow>
          (\<exists>p'. createRippleEffect (Some w) e p = Inr p' \<and> currentTarget p' = currentTarget p)"
    using createRippleEffect_returns [OF assms(1), of e p] by auto
  obtain p' n radius where c: "createRippleEffect_clearing (Some w) e p = Inr p'"
    and r: "ripples p' =
             [\<lparr>node_id = n, className = ''ripple-effect'',
               style_width = s, style_height = s,
               style_left = js_minus (fl ?a) (js_divide s 2),
               style_top = js_minus (fl ?b) (js_divide s 2),
               style_backgroundColor = None, style_borderRadius = radius\<rparr>]"
    using createRippleEffect_clearing_inserts [OF assms(1) assms(2), of e p, folded m_def, folded s_def]
    by blast
  from doubled_size_bounds(1) [OF m] a b
  have a': "?a \<le> s + underflow_error" and b': "?b \<le> s + underflow_error"
    unfolding s_def by linarith+
  have sz: "\<bar>s - 2 * m\<bar> \<le> m / 2 ^ 52 + d"
    using doubled_size_bounds(2) [OF m] unfolding s_def d_def .
  have dx: "\<bar>js_minus (fl ?a) (js_divide s 2) + s / 2 - ?a\<bar> \<le> s / 2 ^ 51 + 4 * d"
    using centre_error [OF a(1) a'] unfolding d_def .
  have dy: "\<bar>js_minus (fl ?b) (js_divide s 2) + s / 2 - ?b\<bar> \<le> s / 2 ^ 51 + 4 * d"
    using centre_error [OF b(1) b'] unfolding d_def .
  have third: "m < doubling_limit \<longrightarrow> (\<exists>p' r. createRippleEffect_clearing (Some w) e p = Inr p'
             \<and> ripples p' = [r]
             \<and> className r = ''ripple-effect''
             \<and> \<bar>style_width r - 2 * m\<bar> \<le> m / 2 ^ 52 + d
             \<and> style_height r = style_width r
             \<and> \<bar>style_left r + style_width r / 2 - ?a\<bar> \<le> style_width r / 2 ^ 51 + 4 * d
             \<and> \<bar>style_top r + style_height r / 2 - ?b\<bar> \<le> style_height r / 2 ^ 51 + 4 * d)"
    using sz dx dy by (simp add: c r)
  from first second third show ?thesis
    unfolding m_def d_def by (intro conjI)
qed

theorem ripple_centred_on_activation_point_witness:
  "matchMedia \<lparr>matchMedia = Some (\<lambda>q. False)\<rparr> = Some (\<lambda>q. False)
   \<and> (20::real) \<le> 50 \<and> (50::real) \<le> 20 + 100 \<and> (30::real) \<le> 45 \<and> (45::real) \<le> 30 + 40
   \<and> (\<exists>p' r. createRippleEffect (Some \<lparr>matchMedia = Some (\<lambda>q. False)\<rparr>)
           \<lparr>clientX = 50, clientY = 45\<rparr>
           \<lparr>currentTarget =
              \<lparr>boundingClientRect = \<lparr>rect_left = 20, rect_top = 30, rect_width = 100, rect_height = 40\<rparr>,
               classList = [], computedBorderRadius = ''0px'', ripple_container = Some []\<rparr>,
            next_node = 0, timeouts = [], onClick_calls = 0\<rparr> = Inr p'
         \<and> ripple_container (currentTarget p') = Some [r]
         \<and> className r = ''ripple-effect''
         \<and> style_width r = 100
         \<and> style_height r = style_width r
         \<and> \<bar>style_left r + style_width r / 2 - 30\<bar> \<le> style_width r / 2 ^ 51 + 4 * underflow_error
         \<and> \<bar>style_top r + style_height r / 2 - 15\<bar> \<le> style_height r / 2 ^ 51 + 4 * underflow_error)
   \<and> max (100::real) 40 < doubling_limit
   \<and> (\<exists>p' r. createRippleEffect_clearing (Some \<lparr>matchMedia = Some (\<lambda>q. False)\<rparr>)
           \<lparr>clientX = 50, clientY = 45\<rparr>
           \<lparr>currentTarget =
              \<lparr>boundingClientRect = \<lparr>rect_left = 20, rect_top = 30, rect_width = 100, rect_height = 40\<rparr>,
               classList = [], computedBorderRadius = ''0px'', ripple_container = Some []\<rparr>,
            next_node = 0, timeouts = [], onClick_calls = 0\<rparr> = Inr p'
         \<and> ripples p' = [r]
         \<and> className r = ''ripple-effect''
         \<and> \<bar>style_width r - 200\<bar> \<le> 100 / 2 ^ 52 + underflow_error
         \<and> style_height r = style_width r
         \<and> \<bar>style_left r + style_width r / 2 - 30\<bar> \<le> style_width r / 2 ^ 51 + 4 * underflow_error
         \<and> \<bar>style_top r + style_height r / 2 - 15\<bar> \<le> style_height r / 2 ^ 51 + 4 * underflow_error)"
proof -
  let ?w = "\<lparr>matchMedia = Some (\<lambda>q. False)\<rparr>"
  let ?e = "\<lparr>clientX = 50, clientY = 45\<rparr>"
  let ?p = "\<lparr>currentTarget =
              \<lparr>boundingClientRect = \<lparr>rect_left = 20, rect_top = 30, rect_width = 100, rect_height = 40\<rparr>,
               classList = [], computedBorderRadius = ''0px'', ripple_container = Some []\<rparr>,
            next_node = 0, timeouts = [], onClick_calls = 0\<rparr>"
  have m: "matchMedia ?w = Some (\<lambda>q. False)"
    by simp
  have h: "\<not> (\<lambda>q. False) ''(prefers-reduced-motion: reduce)''"
    by simp
  have "(2::real) ^ 7 \<le> 2 ^ 1023"
    by (rule power_increasing) simp_all
  then have l: "max (100::real) 40 < doubling_limit"
    unfolding doubling_limit_def by simp
  have i: "rect_left (boundingClientRect (currentTarget ?p)) \<le> clientX ?e"
    "clientX ?e \<le> rect_left (boundingClientRect (currentTarget ?p))
                      + rect_width (boundingClientRect (currentTarget ?p))"
    "rect_top (boundingClientRect (currentTarget ?p)) \<le> clientY ?e"
    "clientY ?e \<le> rect_top (boundingClientRect (currentTarget ?p))
                      + rect_height (boundingClientRect (currentTarget ?p))"
    by simp_all
  show ?thesis
    using ripple_centred_on_activation_point [OF m h i, of "[]"] l
    by simp
qed

text \<open>
  C4 as stated fails in two places. On a host with no ripple container, \<open>createRippleEffect\<close>
  of \<open>utils.ts\<close> returns with no ripple in the tree, for an activation point inside the host
  and with reduced motion off. And the version that clears earlier ripples sizes its node
  to 200 on a host of 100 by 40, twice the larger dimension.
\<close>

theorem ripple_claim_counterexample:
  "\<not> isl (createRippleEffect (Some \<lparr>matchMedia = Some (\<lambda>q. False)\<rparr>) \<lparr>clientX = 10, clientY = 10\<rparr>
           \<lparr>currentTarget =
              \<lparr>boundingClientRect = \<lparr>rect_left = 0, rect_top = 0, rect_width = 100, rect_height = 40\<rparr>,
               classList = [], computedBorderRadius = ''0px'', ripple_container = None\<rparr>,
            next_node = 0, timeouts = [], onClick_calls = 0\<rparr>)
   \<and> ripple_container (currentTarget (projr
         (createRippleEffect (Some \<lparr>matchMedia = Some (\<lambda>q. False)\<rparr>) \<lparr>clientX = 10, clientY = 10\<rparr>
           \<lparr>currentTarget =
              \<lparr>boundingClientRect = \<lparr>rect_left = 0, rect_top = 0, rect_width = 100, rect_height = 40\<rparr>,
               classList = [], computedBorderRadius = ''0px'', ripple_container = None\<rparr>,
            next_node = 0, timeouts = [], onClick_calls = 0\<rparr>))) = None
   \<and> ripples (projr
         (createRippleEffect (Some \<lparr>matchMedia = Some (\<lambda>q. False)\<rparr>) \<lparr>clientX = 10, clientY = 10\<rparr>
           \<lparr>currentTarget =
              \<lparr>boundingClientRect = \<lparr>rect_left = 0, rect_top = 0, rect_width = 100, rect_height = 40\<rparr>,
               classList = [], computedBorderRadius = ''0px'', ripple_container = None\<rparr>,
            next_node = 0, timeouts = [], onClick_calls = 0\<rparr>)) = []
   \<and> \<not> isl (createRippleEffect_clearing (Some \<lparr>matchMedia = Some (\<lambda>q. False)\<rparr>)
           \<lparr>clientX = 10, clientY = 10\<rparr>
           \<lparr>currentTarget =
              \<lparr>boundingClientRect = \<lparr>rect_left = 0, rect_top = 0, rect_width = 100, rect_height = 40\<rparr>,
               classList = [], computedBorderRadius = ''0px'', ripple_container = Some []\<rparr>,
            next_node = 0, timeouts = [], onClick_calls = 0\<rparr>)
   \<and> map style_width (ripples (projr
         (createRippleEffect_clearing (Some \<lparr>matchMedia = Some (\<lambda>q. False)\<rparr>)
           \<lparr>clientX = 10, clientY = 10\<rparr>
           \<lparr>currentTarget =
              \<lparr>boundingClientRect = \<lparr>rect_left = 0, rect_top = 0, rect_width = 100, rect_height = 40\<rparr>,
               classList = [], computedBorderRadius = ''0px'', ripple_container = Some []\<rparr>,
            next_node = 0, timeouts = [], onClick_calls = 0\<rparr>))) = [200]
   \<and> max (100::real) 40 = 100"
  by (simp add: createRippleEffect_def createRippleEffect_clearing_def ensure_container_def
        prefersReducedMotion_def Let_def setTimeout_def ripples_def matches_class_def
        class_tokens_ripple_effect js_times_def js_minus_def js_divide_def fl_numeral fl_neg_numeral)

text \<open>
  The rounding is real. With \<open>clientX\<close> the double nearest 10.1 and the host's left edge
  the double nearest 0.3, on a host 100 wide, the offset is the double nearest \<open>-40.2\<close>
  and the node's centre is \<open>45 / 2^54\<close> to the left of the activation point.
\<close>

lemma bitlen_9: "bitlen 9 = 4"
  by code_simp

lemma bitlen_40: "bitlen 40 = 6"
  by code_simp

lemma createRippleEffect_rounds:
  "createRippleEffect (Some \<lparr>matchMedia = Some (\<lambda>q. False)\<rparr>)
     \<lparr>clientX = 5685794529555251 / 562949953421312, clientY = 10\<rparr>
     \<lparr>currentTarget =
        \<lparr>boundingClientRect =
           \<lparr>rect_left = 5404319552844595 / 18014398509481984, rect_top = 0,
            rect_width = 100, rect_height = 40\<rparr>,
         classList = [], computedBorderRadius = ''0px'', ripple_container = Some []\<rparr>,
      next_node = 0, timeouts = [], onClick_calls = 0\<rparr>
   = Inr \<lparr>currentTarget =
        \<lparr>boundingClientRect =
           \<lparr>rect_left = 5404319552844595 / 18014398509481984, rect_top = 0,
            rect_width = 100, rect_height = 40\<rparr>,
         classList = [], computedBorderRadius = ''0px'',
         ripple_container = Some
           [\<lparr>node_id = 0, className = ''ripple-effect'', style_width = 100, style_height = 100,
             style_left = - (2828823515942093 / 70368744177664), style_top = - 40,
             style_backgroundColor = None, style_borderRadius = None\<rparr>]\<rparr>,
      next_node = 1, timeouts = [(600, 0)], onClick_calls = 0\<rparr>
   \<and> - (2828823515942093 / 70368744177664) + 100 / 2
       - (5685794529555251 / 562949953421312 - 5404319552844595 / 18014398509481984)
     = - (45 / 18014398509481984 :: real)"
proof -
  have a: "fl (176541105392923437 / 18014398509481984) = 5516909543528857 / 562949953421312"
    by (simp add: fl_def quantum_def binade_def round_half_even_def Let_def bitlen_9)
  have x: "fl (- (22630588127536743 / 562949953421312)) = - (2828823515942093 / 70368744177664)"
    by (simp add: fl_def quantum_def binade_def round_half_even_def Let_def bitlen_40)
  show ?thesis
    by (simp add: createRippleEffect_def prefersReducedMotion_def Let_def setTimeout_def
          js_minus_def js_divide_def fl_numeral fl_neg_numeral a x)
qed

text \<open>
  Clearing goes by class, not by the whole \<open>class\<close> attribute: an earlier ripple whose
  attribute is \<open>ripple-effect fading\<close> is removed with the others, and a child without the
  class stays.
\<close>

lemma createRippleEffect_clearing_by_class:
  "map node_id (ripples (projr
     (createRippleEffect_clearing (Some \<lparr>matchMedia = Some (\<lambda>q. False)\<rparr>)
        \<lparr>clientX = 10, clientY = 10\<rparr>
        \<lparr>currentTarget =
           \<lparr>boundingClientRect = \<lparr>rect_left = 0, rect_top = 0, rect_width = 100, rect_height = 40\<rparr>,
            classList = [], computedBorderRadius = ''0px'',
            ripple_container = Some
              [\<lparr>node_id = 0, className = ''inline-flex'', style_width = 0, style_height = 0,
                style_left = 0, style_top = 0, style_backgroundColor = None,
                style_borderRadius = None\<rparr>,
               \<lparr>node_id = 1, className = ''ripple-effect fading'', style_width = 100,
                style_height = 100, style_left = 0, style_top = 0, style_backgroundColor = None,
                style_borderRadius = None\<rparr>]\<rparr>,
         next_node = 2, timeouts = [(600, 1)], onClick_calls = 0\<rparr>))) = [2]
   \<and> map node_id (the (ripple_container (currentTarget (projr
     (createRippleEffect_clearing (Some \<lparr>matchMedia = Some (\<lambda>q. False)\<rparr>)
        \<lparr>clientX = 10, clientY = 10\<rparr>
        \<lparr>currentTarget =
           \<lparr>boundingClientRect = \<lparr>rect_left = 0, rect_top = 0, rect_width = 100, rect_height = 40\<rparr>,
            classList = [], computedBorderRadius = ''0px'',
            ripple_container = Some
              [\<lparr>node_id = 0, className = ''inline-flex'', style_width = 0, style_height = 0,
                style_left = 0, style_top = 0, style_backgroundColor = None,
                style_borderRadius = None\<rparr>,
               \<lparr>node_id = 1, className = ''ripple-effect fading'', style_width = 100,
                style_height = 100, style_left = 0, style_top = 0, style_backgroundColor = None,
                style_borderRadius = None\<rparr>]\<rparr>,
         next_node = 2, timeouts = [(600, 1)], onClick_calls = 0\<rparr>))))) = [0, 2]"
  by (simp add: createRippleEffect_clearing_def ensure_container_def prefersReducedMotion_def
        Let_def setTimeout_def ripples_def matches_class_def class_tokens_def
        is_ascii_whitespace_def js_times_def js_minus_def js_divide_def fl_numeral fl_neg_numeral)

text \<open>
  Lowercasing reaches the Latin-1 letters: the combination \<open>ctrl+\<close>U+00C9 fires on a ctrl
  key event whose key is U+00E9.
\<close>

lemma shortcut_latin1_letter:
  "Button_keydown
     \<lparr>disabled = False, isLoading = False, disableAnimation = False,
      keyboardShortcut = Some (''ctrl+'' @ [CHR 0xC9]), rippleColor = None, rippleDuration = 600,
      onClick = True\<rparr>
     True
     \<lparr>key = [CHR 0xE9], ctrlKey = True, altKey = False, shiftKey = False, metaKey = False,
      target_tagName = Some ''BODY''\<rparr>
     \<lparr>preventDefault_calls = 0, click_calls = 0\<rparr>
   = \<lparr>preventDefault_calls = 1, click_calls = 1\<rparr>"
  by (simp add: Button_keydown_def Button_handleGlobalKeyDown_def toLowerCase_def lower_char_def
        click_def preventDefault_def Let_def)

end
